theory Spec2Isabelle
  imports Main "HOL-Library.Word" "HOL-Library.Signed_Division"
begin

section \<open>The simulated osquery agent of agent.go\<close>

text \<open>
  The development embeds \<^verbatim>\<open>agent.go\<close>: the per-agent field cache
  (\<^verbatim>\<open>randomString\<close>, \<^verbatim>\<open>CachedString\<close>), the four protocol
  operations (\<^verbatim>\<open>Enroll\<close>, \<^verbatim>\<open>Config\<close>, \<^verbatim>\<open>DistributedRead\<close>,
  \<^verbatim>\<open>DistributedWrite\<close>), the run loop and the launcher in \<^verbatim>\<open>main\<close>.
  Mutation of the agent is explicit state passing. Everything the program does to the
  outside (HTTP exchanges, log lines, sleeps) is appended to an event list; everything
  it receives from the outside (random numbers, the outcome of an HTTP exchange, the
  outcome of JSON decoding) is read from an environment record.
\<close>

subsection \<open>Data model\<close>

text \<open>
  Modelled from the spec: the template renderer. The \<^verbatim>\<open>*.tmpl\<close> files and Go's
  \<^verbatim>\<open>text/template\<close> engine are not part of the sources. The spec describes the
  renderer as a function of a template name and an agent that exposes the server address,
  the enroll secret, the identity, the session key and the field-cache lookup, and that
  may fail leaving a partial body. A template is therefore a list of actions: literal
  text, one of the four exported fields, a call of \<^verbatim>\<open>CachedString\<close>, or an action
  whose evaluation fails.
\<close>

datatype tmpl_action =
    Text string
  | Field_ServerAddress
  | Field_EnrollSecret
  | Field_NodeKey
  | Field_UUID
  | Call_CachedString string
  | Fails string

text \<open>
  \<^verbatim>\<open>type Agent struct\<close>. The field \<^verbatim>\<open>Client\<close> carries no data of its own:
  what the HTTP client answers is the environment's \<open>client_Do\<close> below. The parsed
  template set \<^verbatim>\<open>Templates\<close> maps a template name to its actions.
\<close>

record Agent =
  ServerAddress :: string
  EnrollSecret :: string
  NodeKey :: string
  UUID :: string
  Templates :: "string \<rightharpoonup> tmpl_action list"
  strings :: "string \<rightharpoonup> string"

record enrollResponse =
  er_NodeKey :: string

record distributedReadResponse =
  Queries :: "string \<rightharpoonup> string"

record http_request =
  rq_method :: string
  rq_url :: string
  rq_header :: "(string \<times> string) list"
  rq_body :: string

record http_response =
  StatusCode :: int
  Status :: string
  Body :: string

text \<open>
  An error built by \<^verbatim>\<open>fmt.Errorf(format, operand)\<close>: the format string and the
  operand (the text of the underlying error, or the status line).
\<close>

datatype go_error = Errorf string string

datatype call =
    EnrollCall
  | ConfigCall
  | DistributedReadCall
  | DistributedWriteCall "string \<rightharpoonup> string"

text \<open>
  The observable effects, in the order they happen: a request handed to
  \<^verbatim>\<open>a.Client.Do\<close>, a line printed by \<^verbatim>\<open>log.Println\<close> (its operands), a
  \<^verbatim>\<open>time.Sleep\<close> (nanoseconds), and the invocation of one of the agent's operations
  by the run loop.
\<close>

datatype event =
    HttpDo http_request
  | Log "string list"
  | LogError go_error
  | Sleep int
  | Invoke call

record world =
  events :: "event list"
  rand_pos :: nat
  sent :: nat

text \<open>
  The environment: the process-wide random source (\<^verbatim>\<open>rand.Int63\<close> returns a
  non-negative 63-bit integer; \<open>rand_Int63 k\<close> is the \<open>k\<close>-th number this agent
  draws), the error \<^verbatim>\<open>http.NewRequest\<close> reports for a method and URL, the outcome
  of the \<open>n\<close>-th \<^verbatim>\<open>Client.Do\<close> (a transport error or a response), and the outcome
  of decoding a response body with \<^verbatim>\<open>encoding/json\<close>.
\<close>

record env =
  rand_Int63 :: "nat \<Rightarrow> 63 word"
  http_NewRequest :: "string \<Rightarrow> string \<Rightarrow> string option"
  client_Do :: "nat \<Rightarrow> http_request \<Rightarrow> string + http_response"
  json_Decode_enroll :: "string \<Rightarrow> string + enrollResponse"
  json_Decode_read :: "string \<Rightarrow> string + distributedReadResponse"

subsection \<open>The field cache: randomString and CachedString\<close>

definition stringVals :: string where
  "stringVals = ''abcdefghijklmnopqrstuvwxyzABCDEFGHIJKLMNOPQRSTUVWXYZ0123456789-_.''"

text \<open>Indexing a Go string: out of range is a run-time panic (\<open>None\<close>).\<close>

definition index_byte :: "string \<Rightarrow> int \<Rightarrow> char option" where
  "index_byte s i = (if 0 \<le> i \<and> i < int (length s) then Some (s ! nat i) else None)"

text \<open>
  The loop of \<^verbatim>\<open>randomString\<close>:
  \<^verbatim>\<open>for i := 0; i < n; i++ { sb.WriteByte(stringVals[rand.Int63()%int64(len(stringVals))]) }\<close>.
  Go's \<^verbatim>\<open>%\<close> truncates towards zero (\<open>smod\<close>).
\<close>

function randomString_loop :: "env \<Rightarrow> int \<Rightarrow> int \<Rightarrow> string \<times> world \<Rightarrow> (string \<times> world) option" where
  "randomString_loop e i n (sb, w) =
     (if i < n then
        (case index_byte stringVals
                (uint (rand_Int63 e (rand_pos w)) smod int (length stringVals)) of
           None \<Rightarrow> None
         | Some c \<Rightarrow> randomString_loop e (i + 1) n (sb @ [c], w\<lparr>rand_pos := rand_pos w + 1\<rparr>))
      else Some (sb, w))"
  by pat_completeness auto
termination
  by (relation "measure (\<lambda>(e, i, n, s). nat (n - i))") auto

declare randomString_loop.simps [simp del]

text \<open>
  \<^verbatim>\<open>randomString(n)\<close>. \<^verbatim>\<open>sb.Grow(n)\<close> panics for a negative \<open>n\<close>; a panic is
  the value \<open>None\<close>.
\<close>

definition randomString :: "env \<Rightarrow> int \<Rightarrow> world \<Rightarrow> (string \<times> world) option" where
  "randomString e n w = (if n < 0 then None else randomString_loop e 0 n ([], w))"

text \<open>\<^verbatim>\<open>CachedString(key)\<close>: the stored value if there is one, else a fresh one, stored.\<close>

definition CachedString :: "env \<Rightarrow> string \<Rightarrow> Agent \<times> world \<Rightarrow> (string \<times> Agent \<times> world) option" where
  "CachedString e key s =
     (case s of (a, w) \<Rightarrow>
        (case strings a key of
           Some val \<Rightarrow> Some (val, a, w)
         | None \<Rightarrow>
            (case randomString e 12 w of
               None \<Rightarrow> None
             | Some (val, w') \<Rightarrow> Some (val, a\<lparr>strings := (strings a)(key \<mapsto> val)\<rparr>, w'))))"

text \<open>
  The alphabet in the words of the spec: lowercase letters, uppercase letters, digits and
  the three characters \<open>-\<close>, \<open>_\<close> and \<open>.\<close>.
\<close>

definition alphabet_char :: "char \<Rightarrow> bool" where
  "alphabet_char c =
     ((97 \<le> (of_char c :: nat) \<and> (of_char c :: nat) \<le> 122)
      \<or> (65 \<le> (of_char c :: nat) \<and> (of_char c :: nat) \<le> 90)
      \<or> (48 \<le> (of_char c :: nat) \<and> (of_char c :: nat) \<le> 57)
      \<or> c = CHR ''-'' \<or> c = CHR ''_'' \<or> c = CHR ''.'')"

text \<open>The shape of a generated field value: twelve characters of the alphabet.\<close>

definition field_value_ok :: "string \<Rightarrow> bool" where
  "field_value_ok v = (length v = 12 \<and> list_all alphabet_char v)"

subsection \<open>Rendering a template\<close>

text \<open>
  Modelled from the spec: \<^verbatim>\<open>a.Templates.ExecuteTemplate(&body, name, a)\<close>. The
  actions of the named template run in order and write to the buffer; the first action
  that fails stops the rendering and leaves what was written so far; an undefined template
  name is an error with nothing written. A panic inside a method the template calls is
  recovered by the engine and reported as an error. The result is the buffer, the error
  (if any) and the agent, whose cache a \<^verbatim>\<open>CachedString\<close> call may have extended.
\<close>

fun exec_actions :: "env \<Rightarrow> tmpl_action list \<Rightarrow> string \<Rightarrow> Agent \<times> world
    \<Rightarrow> (string \<times> string option) \<times> Agent \<times> world" where
  "exec_actions e [] buf s = ((buf, None), s)"
| "exec_actions e (Text t # r) buf s = exec_actions e r (buf @ t) s"
| "exec_actions e (Field_ServerAddress # r) buf s = exec_actions e r (buf @ ServerAddress (fst s)) s"
| "exec_actions e (Field_EnrollSecret # r) buf s = exec_actions e r (buf @ EnrollSecret (fst s)) s"
| "exec_actions e (Field_NodeKey # r) buf s = exec_actions e r (buf @ NodeKey (fst s)) s"
| "exec_actions e (Field_UUID # r) buf s = exec_actions e r (buf @ UUID (fst s)) s"
| "exec_actions e (Call_CachedString k # r) buf s =
     (case CachedString e k s of
        None \<Rightarrow> ((buf, Some ''error calling CachedString''), s)
      | Some (v, s') \<Rightarrow> exec_actions e r (buf @ v) s')"
| "exec_actions e (Fails msg # r) buf s = ((buf, Some msg), s)"

definition ExecuteTemplate :: "env \<Rightarrow> string \<Rightarrow> string \<Rightarrow> Agent \<times> world
    \<Rightarrow> (string \<times> string option) \<times> Agent \<times> world" where
  "ExecuteTemplate e buf name s =
     (case Templates (fst s) name of
        None \<Rightarrow> ((buf, Some (''no template '' @ name)), s)
      | Some t \<Rightarrow> exec_actions e t buf s)"

subsection \<open>The protocol client\<close>

definition log_Println :: "string list \<Rightarrow> world \<Rightarrow> world" where
  "log_Println xs w = w\<lparr>events := events w @ [Log xs]\<rparr>"

text \<open>\<^verbatim>\<open>log.Println(err)\<close> for an error value.\<close>

definition log_Println_error :: "go_error \<Rightarrow> world \<Rightarrow> world" where
  "log_Println_error er w = w\<lparr>events := events w @ [LogError er]\<rparr>"

text \<open>
  \<^verbatim>\<open>a.Client.Do(req)\<close>: the request is handed to the client, which answers with a
  transport error or a response.
\<close>

definition Client_Do :: "env \<Rightarrow> http_request \<Rightarrow> world \<Rightarrow> (string + http_response) \<times> world" where
  "Client_Do e req w =
     (client_Do e (sent w) req, w\<lparr>events := events w @ [HttpDo req], sent := sent w + 1\<rparr>)"

definition StatusOK :: int where
  "StatusOK = 200"

text \<open>The three \<^verbatim>\<open>req.Header.Add\<close> calls every operation makes.\<close>

definition osquery_header :: "(string \<times> string) list" where
  "osquery_header =
     [(''Content-Type'', ''application/json''),
      (''Accept'', ''application/json''),
      (''User-Agent'', ''osquery/4.1.2'')]"

definition post_request :: "string \<Rightarrow> string \<Rightarrow> http_request" where
  "post_request u b = \<lparr>rq_method = ''POST'', rq_url = u, rq_header = osquery_header, rq_body = b\<rparr>"

text \<open>
  \<^verbatim>\<open>Enroll()\<close>. The value \<^verbatim>\<open>ExecuteTemplate\<close> returns is dropped by the source;
  the buffer goes into the request as it is.
\<close>

definition Enroll :: "env \<Rightarrow> Agent \<times> world \<Rightarrow> Agent \<times> world" where
  "Enroll e s =
     (case ExecuteTemplate e [] ''enroll'' s of
        ((body, _), a, w) \<Rightarrow>
          (case http_NewRequest e ''POST'' (ServerAddress a @ ''/api/v1/osquery/enroll'') of
             Some err \<Rightarrow> (a, log_Println [''create request:'', err] w)
           | None \<Rightarrow>
               (case Client_Do e (post_request (ServerAddress a @ ''/api/v1/osquery/enroll'') body) w of
                  (Inl err, w1) \<Rightarrow> (a, log_Println [''do request:'', err] w1)
                | (Inr resp, w1) \<Rightarrow>
                    (if StatusCode resp \<noteq> StatusOK
                     then (a, log_Println [''status:'', Status resp] w1)
                     else (case json_Decode_enroll e (Body resp) of
                             Inl err \<Rightarrow> (a, log_Println [''json parse:'', err] w1)
                           | Inr parsedResp \<Rightarrow> (a\<lparr>NodeKey := er_NodeKey parsedResp\<rparr>, w1))))))"

text \<open>The literal body of \<^verbatim>\<open>Config\<close> and \<^verbatim>\<open>DistributedRead\<close>.\<close>

definition node_key_body :: "string \<Rightarrow> string" where
  \<open>node_key_body k = ''{"node_key": "'' @ k @ ''"}''\<close>

definition Config :: "env \<Rightarrow> Agent \<times> world \<Rightarrow> Agent \<times> world" where
  "Config e s =
     (case s of (a, w) \<Rightarrow>
        (case http_NewRequest e ''POST'' (ServerAddress a @ ''/api/v1/osquery/config'') of
           Some err \<Rightarrow> (a, log_Println [''create config request:'', err] w)
         | None \<Rightarrow>
             (case Client_Do e (post_request (ServerAddress a @ ''/api/v1/osquery/config'')
                                  (node_key_body (NodeKey a))) w of
                (Inl err, w1) \<Rightarrow> (a, log_Println [''do config request:'', err] w1)
              | (Inr resp, w1) \<Rightarrow>
                  (if StatusCode resp \<noteq> StatusOK
                   then (a, log_Println [''config status:'', Status resp] w1)
                   else (a, w1)))))"

text \<open>
  \<^verbatim>\<open>DistributedRead()\<close> returns a pair of a pointer and an error, each of which may
  be nil (\<open>None\<close>).
\<close>

definition DistributedRead :: "env \<Rightarrow> Agent \<times> world
    \<Rightarrow> (distributedReadResponse option \<times> go_error option) \<times> Agent \<times> world" where
  "DistributedRead e s =
     (case s of (a, w) \<Rightarrow>
        (case http_NewRequest e ''POST'' (ServerAddress a @ ''/api/v1/osquery/distributed/read'') of
           Some err \<Rightarrow> ((None, Some (Errorf ''create distributed read request:'' err)), a, w)
         | None \<Rightarrow>
             (case Client_Do e (post_request (ServerAddress a @ ''/api/v1/osquery/distributed/read'')
                                  (node_key_body (NodeKey a))) w of
                (Inl err, w1) \<Rightarrow> ((None, Some (Errorf ''do distributed read request:'' err)), a, w1)
              | (Inr resp, w1) \<Rightarrow>
                  (if StatusCode resp \<noteq> StatusOK
                   then ((None, Some (Errorf ''distributed read status:'' (Status resp))), a, w1)
                   else (case json_Decode_read e (Body resp) of
                           Inl err \<Rightarrow>
                             ((None, Some (Errorf ''json parse distributed read response:'' err)), a, w1)
                         | Inr parsedResp \<Rightarrow> ((Some parsedResp, None), a, w1))))))"

definition DistributedWrite :: "env \<Rightarrow> (string \<rightharpoonup> string) \<Rightarrow> Agent \<times> world \<Rightarrow> Agent \<times> world" where
  "DistributedWrite e queries s =
     (case queries ''kolide_detail_query_network_interface'' of
        None \<Rightarrow> s
      | Some _ \<Rightarrow>
          (case ExecuteTemplate e [] ''distributed_write'' s of
             ((body, _), a, w) \<Rightarrow>
               (case http_NewRequest e ''POST'' (ServerAddress a @ ''/api/v1/osquery/distributed/write'') of
                  Some err \<Rightarrow> (a, log_Println [''create distributed write request:'', err] w)
                | None \<Rightarrow>
                    (case Client_Do e (post_request (ServerAddress a @ ''/api/v1/osquery/distributed/write'') body) w of
                       (Inl err, w1) \<Rightarrow> (a, log_Println [''do distributed write request:'', err] w1)
                     | (Inr resp, w1) \<Rightarrow>
                         (if StatusCode resp \<noteq> StatusOK
                          then (a, log_Println [''distributed write status:'', Status resp] w1)
                          else (a, w1))))))"

subsection \<open>The run loop\<close>

definition Second :: int where
  "Second = 1000000000"

definition time_Sleep :: "int \<Rightarrow> world \<Rightarrow> world" where
  "time_Sleep d w = w\<lparr>events := events w @ [Sleep d]\<rparr>"

text \<open>The run loop calling one of the agent's operations leaves a mark in the event list.\<close>

definition invoke :: "call \<Rightarrow> Agent \<times> world \<Rightarrow> Agent \<times> world" where
  "invoke c s = (fst s, (snd s)\<lparr>events := events (snd s) @ [Invoke c]\<rparr>)"

text \<open>
  One iteration of the \<^verbatim>\<open>for\<close> statement of \<^verbatim>\<open>runLoop\<close>. With a nil error the
  source reads \<^verbatim>\<open>resp.Queries\<close>; were \<^verbatim>\<open>resp\<close> nil as well, that would be a
  nil-pointer panic (\<open>None\<close>).
\<close>

definition runLoop_body :: "env \<Rightarrow> Agent \<times> world \<Rightarrow> (Agent \<times> world) option" where
  "runLoop_body e s =
     (case DistributedRead e (invoke DistributedReadCall (Config e (invoke ConfigCall s))) of
        ((resp, err), s2) \<Rightarrow>
          (case err of
             Some er \<Rightarrow> Some (fst s2, time_Sleep (10 * Second) (log_Println_error er (snd s2)))
           | None \<Rightarrow>
               (case resp of
                  None \<Rightarrow> None
                | Some r \<Rightarrow>
                    (case DistributedWrite e (Queries r) (invoke (DistributedWriteCall (Queries r)) s2) of
                       (a3, w3) \<Rightarrow> Some (a3, time_Sleep (10 * Second) w3)))))"


text \<open>
  The \<^verbatim>\<open>for\<close> statement has no condition and no \<^verbatim>\<open>break\<close>: it can only end by
  a panic in an iteration, and then the result is the state at the panic. The value
  \<open>None\<close> says that the statement never ends.
\<close>

partial_function (option) runLoop_for :: "env \<Rightarrow> Agent \<times> world \<Rightarrow> (Agent \<times> world) option" where
  "runLoop_for e s =
     (case runLoop_body e s of None \<Rightarrow> Some s | Some s' \<Rightarrow> runLoop_for e s')"

definition runLoop :: "env \<Rightarrow> Agent \<times> world \<Rightarrow> (Agent \<times> world) option" where
  "runLoop e s = runLoop_for e (Enroll e (invoke EnrollCall s))"


text \<open>The operations the run loop has called and the sleeps it has taken, in order.\<close>

fun steps_of :: "event list \<Rightarrow> event list" where
  "steps_of [] = []"
| "steps_of (Invoke c # r) = Invoke c # steps_of r"
| "steps_of (Sleep d # r) = Sleep d # steps_of r"
| "steps_of (x # r) = steps_of r"

text \<open>The requests handed to the HTTP client, in order.\<close>

fun requests_of :: "event list \<Rightarrow> http_request list" where
  "requests_of [] = []"
| "requests_of (HttpDo q # r) = q # requests_of r"
| "requests_of (x # r) = requests_of r"

text \<open>The lines written to the log, in order.\<close>

fun logs_of :: "event list \<Rightarrow> event list" where
  "logs_of [] = []"
| "logs_of (Log xs # r) = Log xs # logs_of r"
| "logs_of (LogError er # r) = LogError er # logs_of r"
| "logs_of (x # r) = logs_of r"

text \<open>
  What one iteration adds to the steps, given what \<^verbatim>\<open>DistributedRead\<close> returned in
  it: the write is called exactly when the error is nil.
\<close>

definition cycle_steps :: "distributedReadResponse option \<times> go_error option \<Rightarrow> event list" where
  "cycle_steps r =
     [Invoke ConfigCall, Invoke DistributedReadCall]
     @ (case r of
          (Some resp, None) \<Rightarrow> [Invoke (DistributedWriteCall (Queries resp))]
        | _ \<Rightarrow> [])
     @ [Sleep (10 * Second)]"

text \<open>What \<^verbatim>\<open>DistributedRead\<close> returns in the iteration that starts in state \<open>s\<close>.\<close>

definition read_result :: "env \<Rightarrow> Agent \<times> world \<Rightarrow> distributedReadResponse option \<times> go_error option" where
  "read_result e s = fst (DistributedRead e (invoke DistributedReadCall (Config e (invoke ConfigCall s))))"


subsection \<open>The launcher in main\<close>

text \<open>
  The environment of \<^verbatim>\<open>main\<close>: the outcome of \<^verbatim>\<open>template.ParseGlob\<close>, the
  identifiers \<^verbatim>\<open>uuid.New\<close> hands out, and by how many nanoseconds the \<open>k\<close>-th
  \<^verbatim>\<open>time.Sleep\<close> oversleeps (a sleep lasts at least the duration asked for).
\<close>

record launch_env =
  template_ParseGlob :: "string \<Rightarrow> string + (string \<rightharpoonup> tmpl_action list)"
  uuid_New :: "nat \<Rightarrow> string"
  oversleep :: "nat \<Rightarrow> nat"

text \<open>The command-line flags. \<^verbatim>\<open>host_count\<close> is a Go \<^verbatim>\<open>int\<close>.\<close>

record flags =
  server_url :: string
  enroll_secret :: string
  host_count :: int
  seed :: int

text \<open>
  The state of \<^verbatim>\<open>main\<close>: the slice \<^verbatim>\<open>agents\<close>, the goroutines started by
  \<^verbatim>\<open>go a.runLoop()\<close> (the index of the agent and the time of the start), the time
  in nanoseconds, the number of sleeps taken and the lines printed.
\<close>

record launcher =
  agents :: "Agent list"
  started :: "(nat \<times> int) list"
  clock :: int
  naps :: nat
  printed :: "string list"

definition NewAgent :: "launch_env \<Rightarrow> nat \<Rightarrow> string \<Rightarrow> string \<Rightarrow> (string \<rightharpoonup> tmpl_action list) \<Rightarrow> Agent" where
  "NewAgent le k serverAddress enrollSecret templates =
     \<lparr>ServerAddress = serverAddress, EnrollSecret = enrollSecret, NodeKey = [],
      UUID = uuid_New le k, Templates = templates, strings = Map.empty\<rparr>"

text \<open>\<^verbatim>\<open>time.Sleep(d)\<close> in \<^verbatim>\<open>main\<close>: it returns at once for \<open>d \<le> 0\<close>.\<close>

definition main_Sleep :: "launch_env \<Rightarrow> int \<Rightarrow> launcher \<Rightarrow> launcher" where
  "main_Sleep le d L =
     L\<lparr>clock := clock L + max 0 d + int (oversleep le (naps L)), naps := naps L + 1\<rparr>"

text \<open>
  Go's integer division: a zero divisor is a run-time panic (\<open>None\<close>), and the quotient
  truncates towards zero (\<open>sdiv\<close>).
\<close>

definition go_div :: "int \<Rightarrow> int \<Rightarrow> int option" where
  "go_div a b = (if b = 0 then None else Some (a sdiv b))"

text \<open>
  \<^verbatim>\<open>for i := 0; i < *hostCount; i++ { a := NewAgent(...); agents = append(agents, a);
  go a.runLoop(); time.Sleep(sleepTime) }\<close>. Neither \<open>i\<close> nor the quotient can leave the
  range of a Go \<^verbatim>\<open>int\<close>, so both are integers here.
\<close>

function main_loop :: "launch_env \<Rightarrow> flags \<Rightarrow> (string \<rightharpoonup> tmpl_action list) \<Rightarrow> int \<Rightarrow> int
    \<Rightarrow> launcher \<Rightarrow> launcher" where
  "main_loop le fl tmpl sleepTime i L =
     (if i < host_count fl then
        main_loop le fl tmpl sleepTime (i + 1)
          (main_Sleep le sleepTime
             (L\<lparr>agents := agents L @ [NewAgent le (length (agents L)) (server_url fl) (enroll_secret fl) tmpl],
                started := started L @ [(length (agents L), clock L)]\<rparr>))
      else L)"
  by pat_completeness auto
termination
  by (relation "measure (\<lambda>(le, fl, tmpl, d, i, L). nat (host_count fl - i))") auto

declare main_loop.simps [simp del]

datatype main_outcome =
    Fatal string
  | Panicked string launcher
  | Blocked launcher

text \<open>
  The launcher proper, from the computation of \<^verbatim>\<open>sleepTime\<close> on. After the loop
  \<^verbatim>\<open>main\<close> prints a line and blocks on a channel for ever.
\<close>

definition launch :: "launch_env \<Rightarrow> flags \<Rightarrow> (string \<rightharpoonup> tmpl_action list) \<Rightarrow> launcher \<Rightarrow> main_outcome" where
  "launch le fl tmpl L =
     (case go_div (10 * Second) (host_count fl) of
        None \<Rightarrow> Panicked ''runtime error: integer divide by zero'' L
      | Some sleepTime \<Rightarrow>
          (case main_loop le fl tmpl sleepTime 0 L of
             L' \<Rightarrow> Blocked (L'\<lparr>printed := printed L' @ [''Agents running. Kill with C-c.'']\<rparr>)))"

definition launcher0 :: launcher where
  "launcher0 = \<lparr>agents = [], started = [], clock = 0, naps = 0, printed = []\<rparr>"

text \<open>\<^verbatim>\<open>main\<close>: \<^verbatim>\<open>log.Fatal\<close> ends the process when the templates do not parse.\<close>

definition main :: "launch_env \<Rightarrow> flags \<Rightarrow> main_outcome" where
  "main le fl =
     (case template_ParseGlob le ''*.tmpl'' of
        Inl err \<Rightarrow> Fatal (''parse templates: '' @ err)
      | Inr tmpl \<Rightarrow> launch le fl tmpl launcher0)"

subsection \<open>Reading a JSON object with the single member node_key\<close>

text \<open>
  The spec calls the body of \<^verbatim>\<open>Config\<close> and \<^verbatim>\<open>DistributedRead\<close> a JSON
  object whose only field is the session key. The reader below is what a server does
  with such a body, following RFC 8259: white space, the braces, the member name, the
  colon, and string literals with their escapes (\<open>\uXXXX\<close> escapes come out as UTF-8,
  a surrogate pair as one code point, a lone surrogate as U+FFFD). It returns the value
  of the member \<open>node_key\<close> when the text is an object with exactly that one member
  and a string value, and \<open>None\<close> for every other text.
\<close>

definition json_ws :: "char \<Rightarrow> bool" where
  "json_ws c = (c = CHR 0x20 \<or> c = CHR 0x09 \<or> c = CHR 0x0A \<or> c = CHR 0x0D)"

definition skip_ws :: "string \<Rightarrow> string" where
  "skip_ws s = dropWhile json_ws s"

definition hex_val :: "char \<Rightarrow> nat option" where
  "hex_val c =
     (if 48 \<le> (of_char c :: nat) \<and> (of_char c :: nat) \<le> 57 then Some (of_char c - 48)
      else if 97 \<le> (of_char c :: nat) \<and> (of_char c :: nat) \<le> 102 then Some (of_char c - 87)
      else if 65 \<le> (of_char c :: nat) \<and> (of_char c :: nat) \<le> 70 then Some (of_char c - 55)
      else None)"

definition hex4 :: "string \<Rightarrow> nat option" where
  "hex4 s =
     (case map hex_val s of
        [Some a, Some b, Some c, Some d] \<Rightarrow> Some (((a * 16 + b) * 16 + c) * 16 + d)
      | _ \<Rightarrow> None)"

definition utf8_encode :: "nat \<Rightarrow> string" where
  "utf8_encode n =
     (if n < 0x80 then [char_of n]
      else if n < 0x800 then [char_of (0xC0 + n div 64), char_of (0x80 + n mod 64)]
      else if n < 0x10000 then
        [char_of (0xE0 + n div 4096), char_of (0x80 + (n div 64) mod 64), char_of (0x80 + n mod 64)]
      else
        [char_of (0xF0 + n div 262144), char_of (0x80 + (n div 4096) mod 64),
         char_of (0x80 + (n div 64) mod 64), char_of (0x80 + n mod 64)])"

text \<open>The character a two-character escape stands for.\<close>

definition simple_escape :: "char \<Rightarrow> char option" where
  "simple_escape d =
     (if d = CHR 0x22 then Some (CHR 0x22)
      else if d = CHR 0x5C then Some (CHR 0x5C)
      else if d = CHR ''/'' then Some (CHR ''/'')
      else if d = CHR ''b'' then Some (CHR 0x08)
      else if d = CHR ''f'' then Some (CHR 0x0C)
      else if d = CHR ''n'' then Some (CHR 0x0A)
      else if d = CHR ''r'' then Some (CHR 0x0D)
      else if d = CHR ''t'' then Some (CHR 0x09)
      else None)"

text \<open>
  The low half of a surrogate pair that follows a high half \<open>hi\<close>, read from the text
  after the first escape.
\<close>

definition low_surrogate :: "nat \<Rightarrow> string \<Rightarrow> nat option" where
  "low_surrogate hi r =
     (if 0xD800 \<le> hi \<and> hi < 0xDC00 \<and> take 2 r = [CHR 0x5C, CHR ''u'']
      then (case hex4 (take 4 (drop 2 r)) of
              None \<Rightarrow> None
            | Some lo \<Rightarrow> if 0xDC00 \<le> lo \<and> lo < 0xE000 then Some lo else None)
      else None)"

text \<open>
  The characters of a string literal after its opening quote: the decoded value and the
  text after the closing quote.
\<close>

fun json_chars :: "string \<Rightarrow> string \<Rightarrow> (string \<times> string) option" where
  "json_chars acc [] = None"
| "json_chars acc (c # cs) =
     (if c = CHR 0x22 then Some (acc, cs)
      else if c = CHR 0x5C then
        (case cs of
           [] \<Rightarrow> None
         | d # ds \<Rightarrow>
             (if d = CHR ''u'' then
                (case hex4 (take 4 ds) of
                   None \<Rightarrow> None
                 | Some hi \<Rightarrow>
                     (case low_surrogate hi (drop 4 ds) of
                        Some lo \<Rightarrow>
                          json_chars (acc @ utf8_encode (0x10000 + (hi - 0xD800) * 0x400 + (lo - 0xDC00)))
                            (drop 10 ds)
                      | None \<Rightarrow>
                          (if 0xD800 \<le> hi \<and> hi < 0xE000
                           then json_chars (acc @ utf8_encode 0xFFFD) (drop 4 ds)
                           else json_chars (acc @ utf8_encode hi) (drop 4 ds))))
              else (case simple_escape d of
                      None \<Rightarrow> None
                    | Some x \<Rightarrow> json_chars (acc @ [x]) ds)))
      else if (of_char c :: nat) < 0x20 then None
      else json_chars (acc @ [c]) cs)"

definition json_string :: "string \<Rightarrow> (string \<times> string) option" where
  "json_string s =
     (case s of
        [] \<Rightarrow> None
      | c # cs \<Rightarrow> if c = CHR 0x22 then json_chars [] cs else None)"

definition json_node_key_object :: "string \<Rightarrow> string option" where
  "json_node_key_object s =
     (case skip_ws s of
        [] \<Rightarrow> None
      | c1 # r1 \<Rightarrow>
          (if c1 \<noteq> CHR ''{'' then None
           else (case json_string (skip_ws r1) of
                   None \<Rightarrow> None
                 | Some (name, r2) \<Rightarrow>
                     (if name \<noteq> ''node_key'' then None
                      else (case skip_ws r2 of
                              [] \<Rightarrow> None
                            | c3 # r3 \<Rightarrow>
                                (if c3 \<noteq> CHR '':'' then None
                                 else (case json_string (skip_ws r3) of
                                         None \<Rightarrow> None
                                       | Some (v, r4) \<Rightarrow>
                                           (case skip_ws r4 of
                                              [] \<Rightarrow> None
                                            | c5 # r5 \<Rightarrow>
                                                (if c5 = CHR ''}'' \<and> skip_ws r5 = [] then Some v
                                                 else None)))))))))"

text \<open>
  A session key that needs no escaping: ASCII characters other than the control
  characters, the quote and the backslash.
\<close>

definition plain_char :: "char \<Rightarrow> bool" where
  "plain_char c = (0x20 \<le> (of_char c :: nat) \<and> (of_char c :: nat) < 0x80 \<and> c \<noteq> CHR 0x22 \<and> c \<noteq> CHR 0x5C)"

subsection \<open>Example agents and environments\<close>

text \<open>
  The fake server of the spec's end-to-end scenario: it answers the enrollment with the
  session key \<open>abc123\<close>, the configuration request with an empty body, and the
  distributed read with the network-interface query.
\<close>

definition world0 :: world where
  "world0 = \<lparr>events = [], rand_pos = 0, sent = 0\<rparr>"

definition demo_templates :: "string \<rightharpoonup> tmpl_action list" where
  \<open>demo_templates =
     [''enroll'' \<mapsto>
        [Text ''{"enroll_secret": "'', Field_EnrollSecret,
         Text ''", "host_identifier": "'', Field_UUID,
         Text ''", "hostname": "'', Call_CachedString ''hostname'', Text ''"}''],
      ''distributed_write'' \<mapsto>
        [Text ''{"node_key": "'', Field_NodeKey,
         Text ''", "mac": "'', Call_CachedString ''mac'', Text ''"}'']]\<close>

definition demo_agent :: Agent where
  "demo_agent =
     \<lparr>ServerAddress = ''https://localhost:8080'', EnrollSecret = ''s3cr3t'', NodeKey = [],
      UUID = ''0e4f1b1e-7c1f-4b0a-9d57-2f1d3c5a9b10'', Templates = demo_templates,
      strings = Map.empty\<rparr>"

definition ok_response :: "string \<Rightarrow> http_response" where
  "ok_response b = \<lparr>StatusCode = 200, Status = ''200 OK'', Body = b\<rparr>"

definition enroll_json :: string where
  \<open>enroll_json = ''{"node_key": "abc123"}''\<close>

definition read_json :: string where
  \<open>read_json = ''{"queries": {"kolide_detail_query_network_interface": "select * from interface_details"}}''\<close>

definition demo_queries :: "string \<rightharpoonup> string" where
  "demo_queries = [''kolide_detail_query_network_interface'' \<mapsto> ''select * from interface_details'']"

definition fake_server :: "nat \<Rightarrow> http_request \<Rightarrow> string + http_response" where
  "fake_server n q =
     (if rq_url q = ''https://localhost:8080/api/v1/osquery/enroll'' then Inr (ok_response enroll_json)
      else if rq_url q = ''https://localhost:8080/api/v1/osquery/distributed/read''
      then Inr (ok_response read_json)
      else Inr (ok_response []))"

definition demo_env :: env where
  "demo_env =
     \<lparr>rand_Int63 = (\<lambda>k. of_nat (7 * k + 3)),
      http_NewRequest = (\<lambda>m u. None),
      client_Do = fake_server,
      json_Decode_enroll =
        (\<lambda>b. if b = enroll_json then Inr \<lparr>er_NodeKey = ''abc123''\<rparr>
             else Inl ''unexpected end of JSON input''),
      json_Decode_read =
        (\<lambda>b. if b = read_json then Inr \<lparr>Queries = demo_queries\<rparr>
             else Inl ''unexpected end of JSON input'')\<rparr>"

text \<open>An agent whose cache already holds a value.\<close>

definition cached_agent :: Agent where
  "cached_agent = demo_agent\<lparr>strings := [''serial'' \<mapsto> ''C02XK1ZBJG5J'']\<rparr>"


text \<open>A server that answers every request with status 500.\<close>

definition failing_server :: "nat \<Rightarrow> http_request \<Rightarrow> string + http_response" where
  "failing_server n q = Inr \<lparr>StatusCode = 500, Status = ''500 Internal Server Error'', Body = []\<rparr>"

definition failing_env :: env where
  "failing_env = demo_env\<lparr>client_Do := failing_server\<rparr>"

text \<open>No server at all: every exchange is a transport error.\<close>

definition down_env :: env where
  "down_env = demo_env\<lparr>client_Do := (\<lambda>n q. Inl ''dial tcp 127.0.0.1:8080: connect: connection refused'')\<rparr>"

text \<open>A server whose bodies do not decode.\<close>

definition garbled_env :: env where
  "garbled_env = demo_env\<lparr>client_Do := (\<lambda>n q. Inr (ok_response ''<html>''))\<rparr>"

text \<open>
  A server address with a port that is not a number: \<^verbatim>\<open>http.NewRequest\<close> refuses
  every URL that starts with it.
\<close>

definition bad_url_agent :: Agent where
  "bad_url_agent = demo_agent\<lparr>ServerAddress := ''https://localhost:port''\<rparr>"

definition url_checking_env :: env where
  \<open>url_checking_env =
     demo_env\<lparr>http_NewRequest :=
       (\<lambda>m u. if take 22 u = ''https://localhost:port''
              then Some ''invalid port ":port" after host'' else None)\<rparr>\<close>

text \<open>An agent whose templates fail half way.\<close>

definition failing_template_agent :: Agent where
  \<open>failing_template_agent =
     demo_agent\<lparr>Templates :=
       [''enroll'' \<mapsto> [Text ''{"enroll_secret": "'', Fails ''can not evaluate field Secret''],
        ''distributed_write'' \<mapsto> [Text ''{"node_key": "'', Fails ''can not evaluate field Key'']]\<rparr>\<close>

text \<open>The same agent behind the server address that \<^verbatim>\<open>http.NewRequest\<close> refuses.\<close>

definition failing_template_bad_url_agent :: Agent where
  "failing_template_bad_url_agent = failing_template_agent\<lparr>ServerAddress := ''https://localhost:port''\<rparr>"

text \<open>An agent whose session key is a single quote character.\<close>

definition quote_key_agent :: Agent where
  "quote_key_agent = demo_agent\<lparr>NodeKey := [CHR 0x22]\<rparr>"

text \<open>An environment and flags for \<^verbatim>\<open>main\<close>: five hosts, a sleep that overshoots a little.\<close>

definition demo_launch_env :: launch_env where
  "demo_launch_env =
     \<lparr>template_ParseGlob = (\<lambda>p. Inr demo_templates),
      uuid_New = (\<lambda>k. ''uuid-'' @ replicate k (CHR ''i'')),
      oversleep = (\<lambda>k. 1000 * k)\<rparr>"

definition five_hosts :: flags where
  "five_hosts =
     \<lparr>server_url = ''https://localhost:8080'', enroll_secret = ''s3cr3t'', host_count = 5, seed = 1\<rparr>"

definition no_hosts :: flags where
  "no_hosts = five_hosts\<lparr>host_count := 0\<rparr>"

subsection \<open>What rendering leaves alone\<close>

text \<open>
  Rendering may extend the cache and draw random numbers; it touches nothing else of the
  agent and of the world.
\<close>

definition frame :: "Agent \<times> world \<Rightarrow> Agent \<times> world \<Rightarrow> bool" where
  "frame s s' =
     (ServerAddress (fst s') = ServerAddress (fst s) \<and> EnrollSecret (fst s') = EnrollSecret (fst s)
      \<and> NodeKey (fst s') = NodeKey (fst s) \<and> UUID (fst s') = UUID (fst s)
      \<and> Templates (fst s') = Templates (fst s)
      \<and> events (snd s') = events (snd s) \<and> sent (snd s') = sent (snd s))"

section \<open>Properties\<close>

subsection \<open>The field cache\<close>

lemma smod_nonneg: "0 \<le> (a::int) \<Longrightarrow> 0 < b \<Longrightarrow> a smod b = a mod b"
  by (cases "a = 0") (simp_all add: smod_int_alt_def)

lemma length_stringVals: "length stringVals = 65"
  by (simp add: stringVals_def)

lemma pick_byte:
  "\<exists>c. index_byte stringVals (uint (x :: 63 word) smod int (length stringVals)) = Some c
       \<and> c \<in> set stringVals"
proof -
  let ?j = "uint x smod int (length stringVals)"
  have j: "?j = uint x mod 65"
    by (simp add: smod_nonneg length_stringVals)
  have "0 \<le> ?j" and "?j < int (length stringVals)"
    unfolding j by (simp_all add: length_stringVals)
  moreover from this have "stringVals ! nat ?j \<in> set stringVals"
    by (intro nth_mem) linarith
  ultimately show ?thesis
    by (simp add: index_byte_def)
qed

lemma randomString_loop_spec:
  "\<exists>t. randomString_loop e i n (sb, w) = Some (sb @ t, w\<lparr>rand_pos := rand_pos w + length t\<rparr>)
        \<and> int (length t) = max 0 (n - i)
        \<and> set t \<subseteq> set stringVals"
proof (induction e i n "(sb, w)" arbitrary: sb w rule: randomString_loop.induct)
  case (1 e i n sb w)
  show ?case
  proof (cases "i < n")
    case False
    then have "randomString_loop e i n (sb, w) = Some (sb @ [], w\<lparr>rand_pos := rand_pos w + length ([]::string)\<rparr>)"
      by (simp add: randomString_loop.simps[of e i n sb w])
    moreover have "int (length ([]::string)) = max 0 (n - i)"
      using False by simp
    ultimately show ?thesis
      by (intro exI[of _ "[]"]) simp
  next
    case True
    obtain c where c: "index_byte stringVals (uint (rand_Int63 e (rand_pos w)) smod int (length stringVals)) = Some c"
      and cin: "c \<in> set stringVals"
      using pick_byte[of "rand_Int63 e (rand_pos w)"] by (elim exE conjE)
    let ?w1 = "w\<lparr>rand_pos := rand_pos w + 1\<rparr>"
    from "1.hyps"[OF True c] obtain t where
      r: "randomString_loop e (i + 1) n (sb @ [c], ?w1) = Some ((sb @ [c]) @ t, ?w1\<lparr>rand_pos := rand_pos ?w1 + length t\<rparr>)"
      and l: "int (length t) = max 0 (n - (i + 1))"
      and st: "set t \<subseteq> set stringVals"
      by (elim exE conjE)
    have "randomString_loop e i n (sb, w) = Some (sb @ (c # t), w\<lparr>rand_pos := rand_pos w + length (c # t)\<rparr>)"
      using r by (simp add: randomString_loop.simps[of e i n sb w] True c)
    moreover have "int (length (c # t)) = max 0 (n - i)"
      using True l by simp
    moreover have "set (c # t) \<subseteq> set stringVals"
      using cin st by simp
    ultimately show ?thesis
      by (intro exI[of _ "c # t"] conjI)
  qed
qed

lemma randomString_spec:
  assumes n: "0 \<le> n"
  shows "\<exists>t. randomString e n w = Some (t, w\<lparr>rand_pos := rand_pos w + length t\<rparr>)
        \<and> int (length t) = n \<and> set t \<subseteq> set stringVals"
proof -
  obtain t where r: "randomString_loop e 0 n ([], w) = Some ([] @ t, w\<lparr>rand_pos := rand_pos w + length t\<rparr>)"
    and l: "int (length t) = max 0 (n - 0)" and st: "set t \<subseteq> set stringVals"
    using randomString_loop_spec[of e 0 n "[]" w] by (elim exE conjE)
  have "randomString e n w = Some (t, w\<lparr>rand_pos := rand_pos w + length t\<rparr>)"
    using n r by (simp add: randomString_def)
  moreover have "int (length t) = n" using n l by simp
  ultimately show ?thesis using st by (intro exI[of _ t] conjI)
qed

lemma stringVals_all_alphabet: "list_all alphabet_char stringVals"
  by (simp add: stringVals_def alphabet_char_def)

lemma stringVals_alphabet: "c \<in> set stringVals \<Longrightarrow> alphabet_char c"
  using stringVals_all_alphabet by (simp add: list_all_iff)


lemma randomString_12:
  "\<exists>t. randomString e 12 w = Some (t, w\<lparr>rand_pos := rand_pos w + length t\<rparr>)
        \<and> int (length t) = 12 \<and> set t \<subseteq> set stringVals"
  by (rule randomString_spec) simp

lemma CachedString_hit: "strings a key = Some u \<Longrightarrow> CachedString e key (a, w) = Some (u, a, w)"
  by (simp add: CachedString_def)

lemma CachedString_miss:
  assumes "strings a key = None"
  shows "\<exists>v. CachedString e key (a, w)
            = Some (v, a\<lparr>strings := (strings a)(key \<mapsto> v)\<rparr>, w\<lparr>rand_pos := rand_pos w + 12\<rparr>)
          \<and> randomString e 12 w = Some (v, w\<lparr>rand_pos := rand_pos w + 12\<rparr>)
          \<and> length v = 12 \<and> set v \<subseteq> set stringVals"
proof -
  obtain t where r: "randomString e 12 w = Some (t, w\<lparr>rand_pos := rand_pos w + length t\<rparr>)"
    and l: "int (length t) = 12" and st: "set t \<subseteq> set stringVals"
    using randomString_12[of e w] by (elim exE conjE)
  from l have l12: "length t = 12" by simp
  have "CachedString e key (a, w)
          = Some (t, a\<lparr>strings := (strings a)(key \<mapsto> t)\<rparr>, w\<lparr>rand_pos := rand_pos w + 12\<rparr>)"
    using assms r l12 by (simp add: CachedString_def)
  moreover have "randomString e 12 w = Some (t, w\<lparr>rand_pos := rand_pos w + 12\<rparr>)"
    using r l12 by simp
  ultimately show ?thesis using l12 st by (intro exI[of _ t] conjI)
qed

text \<open>
  C5. The field-cache lookup is idempotent. Whatever the agent and the name, the call
  returns a value. On the first call for a name (no entry yet) the value is the random
  string just generated, and it is stored under the name; on a call for a name that has an
  entry the stored value is returned and nothing changes. Every later call with the same
  name, in whatever state of the rest of the world, returns the identical value and
  leaves the agent as it is. No call removes an entry or changes the value of one.
\<close>

theorem C5_CachedString_idempotent:
  "\<exists>v a' w'. CachedString e key (a, w) = Some (v, a', w')
     \<and> (case strings a key of
           None \<Rightarrow> randomString e 12 w = Some (v, w') \<and> a' = a\<lparr>strings := (strings a)(key \<mapsto> v)\<rparr>
         | Some u \<Rightarrow> v = u \<and> a' = a \<and> w' = w)
     \<and> strings a' key = Some v
     \<and> (\<forall>w2. CachedString e key (a', w2) = Some (v, a', w2))
     \<and> (\<forall>k u. strings a k = Some u \<longrightarrow> strings a' k = Some u)"
proof (cases "strings a key")
  case None
  obtain v where c: "CachedString e key (a, w)
            = Some (v, a\<lparr>strings := (strings a)(key \<mapsto> v)\<rparr>, w\<lparr>rand_pos := rand_pos w + 12\<rparr>)"
    and r: "randomString e 12 w = Some (v, w\<lparr>rand_pos := rand_pos w + 12\<rparr>)"
    using CachedString_miss[OF None, of e w] by (elim exE conjE)
  let ?a = "a\<lparr>strings := (strings a)(key \<mapsto> v)\<rparr>"
  have s: "strings ?a key = Some v" by simp
  have again: "\<forall>w2. CachedString e key (?a, w2) = Some (v, ?a, w2)"
    using CachedString_hit[OF s] by simp
  have keep: "\<forall>k u. strings a k = Some u \<longrightarrow> strings ?a k = Some u"
    using None by auto
  show ?thesis
    apply (rule exI[of _ v], rule exI[of _ ?a], rule exI[of _ "w\<lparr>rand_pos := rand_pos w + 12\<rparr>"])
    using c r s again keep None by simp
next
  case (Some u)
  have again: "\<forall>w2. CachedString e key (a, w2) = Some (u, a, w2)"
    using CachedString_hit[OF Some] by simp
  show ?thesis
    apply (rule exI[of _ u], rule exI[of _ a], rule exI[of _ w])
    using Some again by simp
qed

theorem C5_CachedString_idempotent_witness:
  "strings cached_agent ''serial'' = Some ''C02XK1ZBJG5J''
   \<and> strings cached_agent ''hostname'' = None
   \<and> (\<exists>a' w'. CachedString demo_env ''hostname'' (cached_agent, world0) = Some (''dkryFMT07bip'', a', w')
          \<and> randomString demo_env 12 world0 = Some (''dkryFMT07bip'', w')
          \<and> CachedString demo_env ''hostname'' (a', w') = Some (''dkryFMT07bip'', a', w')
          \<and> strings a' ''serial'' = Some ''C02XK1ZBJG5J'')"
proof -
  have r: "randomString demo_env 12 world0 = Some (''dkryFMT07bip'', world0\<lparr>rand_pos := 12\<rparr>)"
    by (simp add: randomString_def randomString_loop.simps demo_env_def world0_def
        index_byte_def stringVals_def)
  have s: "strings cached_agent ''serial'' = Some ''C02XK1ZBJG5J''"
    and h: "strings cached_agent ''hostname'' = None"
    by (simp_all add: cached_agent_def)
  from C5_CachedString_idempotent[of demo_env "''hostname''" cached_agent world0]
  obtain v a' w' where c: "CachedString demo_env ''hostname'' (cached_agent, world0) = Some (v, a', w')"
    and g: "randomString demo_env 12 world0 = Some (v, w')"
    and again: "\<forall>w2. CachedString demo_env ''hostname'' (a', w2) = Some (v, a', w2)"
    and keep: "\<forall>k u. strings cached_agent k = Some u \<longrightarrow> strings a' k = Some u"
    using h by (elim exE conjE) simp
  from g r have v: "v = ''dkryFMT07bip''" by simp
  have "strings a' ''serial'' = Some ''C02XK1ZBJG5J''"
    using keep s by simp
  with c g again v s h show ?thesis by simp
qed

lemma field_value_okI: "length v = 12 \<Longrightarrow> set v \<subseteq> set stringVals \<Longrightarrow> field_value_ok v"
  using stringVals_alphabet by (auto simp: field_value_ok_def list_all_iff)

text \<open>
  C6. Every value the cache generates has exactly the configured length of 12 characters,
  and each of its characters is one of \<open>stringVals\<close>, that is a lowercase letter, an
  uppercase letter, a digit or one of \<open>-\<close>, \<open>_\<close>, \<open>.\<close>: the call
  \<open>randomString 12\<close> always returns such a value, a lookup of a name without an entry
  returns and stores such a value, and a cache all of whose values have this shape keeps
  that property through any lookup.
\<close>

theorem C6_generated_value_shape:
  "(\<exists>v w'. randomString e 12 w = Some (v, w')
        \<and> length v = 12 \<and> (\<forall>c \<in> set v. c \<in> set stringVals \<and> alphabet_char c))
   \<and> (strings a key = None \<longrightarrow>
        (\<exists>v a' w'. CachedString e key (a, w) = Some (v, a', w') \<and> strings a' key = Some v
           \<and> length v = 12 \<and> (\<forall>c \<in> set v. c \<in> set stringVals \<and> alphabet_char c)))
   \<and> ((\<forall>k u. strings a k = Some u \<longrightarrow> field_value_ok u) \<longrightarrow>
        (\<exists>v a' w'. CachedString e key (a, w) = Some (v, a', w')
           \<and> (\<forall>k u. strings a' k = Some u \<longrightarrow> field_value_ok u)))"
proof (intro conjI impI)
  obtain t where r: "randomString e 12 w = Some (t, w\<lparr>rand_pos := rand_pos w + length t\<rparr>)"
    and l: "int (length t) = 12" and st: "set t \<subseteq> set stringVals"
    using randomString_12[of e w] by (elim exE conjE)
  have "\<forall>c \<in> set t. c \<in> set stringVals \<and> alphabet_char c"
    using st stringVals_alphabet by auto
  with r l show "\<exists>v w'. randomString e 12 w = Some (v, w')
        \<and> length v = 12 \<and> (\<forall>c \<in> set v. c \<in> set stringVals \<and> alphabet_char c)"
    by (intro exI[of _ t] exI[of _ "w\<lparr>rand_pos := rand_pos w + length t\<rparr>"]) simp
next
  assume n: "strings a key = None"
  obtain v where c: "CachedString e key (a, w)
            = Some (v, a\<lparr>strings := (strings a)(key \<mapsto> v)\<rparr>, w\<lparr>rand_pos := rand_pos w + 12\<rparr>)"
    and l: "length v = 12" and st: "set v \<subseteq> set stringVals"
    using CachedString_miss[OF n, of e w] by (elim exE conjE)
  have "\<forall>c \<in> set v. c \<in> set stringVals \<and> alphabet_char c"
    using st stringVals_alphabet by auto
  with c l show "\<exists>v a' w'. CachedString e key (a, w) = Some (v, a', w') \<and> strings a' key = Some v
           \<and> length v = 12 \<and> (\<forall>c \<in> set v. c \<in> set stringVals \<and> alphabet_char c)"
    by (intro exI[of _ v] exI[of _ "a\<lparr>strings := (strings a)(key \<mapsto> v)\<rparr>"]
          exI[of _ "w\<lparr>rand_pos := rand_pos w + 12\<rparr>"]) simp
next
  assume inv: "\<forall>k u. strings a k = Some u \<longrightarrow> field_value_ok u"
  show "\<exists>v a' w'. CachedString e key (a, w) = Some (v, a', w')
           \<and> (\<forall>k u. strings a' k = Some u \<longrightarrow> field_value_ok u)"
  proof (cases "strings a key")
    case (Some u)
    show ?thesis
      using CachedString_hit[OF Some, of e w] inv
      by (intro exI[of _ u] exI[of _ a] exI[of _ w]) simp
  next
    case None
    obtain v where c: "CachedString e key (a, w)
            = Some (v, a\<lparr>strings := (strings a)(key \<mapsto> v)\<rparr>, w\<lparr>rand_pos := rand_pos w + 12\<rparr>)"
      and l: "length v = 12" and st: "set v \<subseteq> set stringVals"
      using CachedString_miss[OF None, of e w] by (elim exE conjE)
    have "field_value_ok v" using l st by (rule field_value_okI)
    then have "\<forall>k u. strings (a\<lparr>strings := (strings a)(key \<mapsto> v)\<rparr>) k = Some u \<longrightarrow> field_value_ok u"
      using inv by auto
    with c show ?thesis
      by (intro exI[of _ v] exI[of _ "a\<lparr>strings := (strings a)(key \<mapsto> v)\<rparr>"]
          exI[of _ "w\<lparr>rand_pos := rand_pos w + 12\<rparr>"]) simp
  qed
qed

theorem C6_generated_value_shape_witness:
  "strings demo_agent ''hostname'' = None
   \<and> CachedString demo_env ''hostname'' (demo_agent, world0)
       = Some (''dkryFMT07bip'', demo_agent\<lparr>strings := [''hostname'' \<mapsto> ''dkryFMT07bip'']\<rparr>,
               world0\<lparr>rand_pos := 12\<rparr>)
   \<and> field_value_ok ''C02XK1ZBJG5J''
   \<and> (\<exists>v a' w'. CachedString demo_env ''hostname'' (cached_agent, world0) = Some (v, a', w')
         \<and> length v = 12 \<and> field_value_ok (the (strings a' ''serial'')) \<and> field_value_ok (the (strings a' ''hostname'')))"
proof -
  have r: "randomString demo_env 12 world0 = Some (''dkryFMT07bip'', world0\<lparr>rand_pos := 12\<rparr>)"
    by (simp add: randomString_def randomString_loop.simps demo_env_def world0_def
        index_byte_def stringVals_def)
  have h: "strings cached_agent ''hostname'' = None"
    by (simp add: cached_agent_def)
  have ok: "field_value_ok ''C02XK1ZBJG5J''"
    by (simp add: field_value_ok_def alphabet_char_def)
  have inv: "\<forall>k u. strings cached_agent k = Some u \<longrightarrow> field_value_ok u"
    using ok by (simp add: cached_agent_def)
  have d: "CachedString demo_env ''hostname'' (demo_agent, world0)
       = Some (''dkryFMT07bip'', demo_agent\<lparr>strings := [''hostname'' \<mapsto> ''dkryFMT07bip'']\<rparr>,
               world0\<lparr>rand_pos := 12\<rparr>)"
    using r by (simp add: CachedString_def demo_agent_def)
  have n: "strings demo_agent ''hostname'' = None"
    by (simp add: demo_agent_def)
  note T = C6_generated_value_shape[of demo_env world0 cached_agent "''hostname''"]
  from T[THEN conjunct2, THEN conjunct1, THEN mp, OF h]
  obtain v a' w' where c: "CachedString demo_env ''hostname'' (cached_agent, world0) = Some (v, a', w')"
    and s: "strings a' ''hostname'' = Some v" and l: "length v = 12"
    by (elim conjE exE)
  from T[THEN conjunct2, THEN conjunct2, THEN mp, OF inv]
  obtain v2 a2 w2 where c2: "CachedString demo_env ''hostname'' (cached_agent, world0) = Some (v2, a2, w2)"
    and k2: "\<forall>k u. strings a2 k = Some u \<longrightarrow> field_value_ok u"
    by (elim conjE exE)
  from c c2 have e: "a2 = a'" by simp
  have "strings a' ''serial'' = Some ''C02XK1ZBJG5J''"
    using c h r by (auto simp: CachedString_def cached_agent_def)
  then have "field_value_ok (the (strings a' ''serial''))" using ok by simp
  moreover have "field_value_ok (the (strings a' ''hostname''))" using k2 s e by simp
  ultimately show ?thesis using n d ok c l by blast
qed

subsection \<open>Rendering\<close>

lemma frame_refl: "frame s s"
  by (simp add: frame_def)

lemma frame_trans: "frame s s1 \<Longrightarrow> frame s1 s2 \<Longrightarrow> frame s s2"
  by (simp add: frame_def)

lemma randomString_frame:
  assumes "randomString e n w = Some (t, w')"
  shows "events w' = events w \<and> sent w' = sent w"
proof (cases "n < 0")
  case True
  with assms show ?thesis by (simp add: randomString_def)
next
  case False
  then have "0 \<le> n" by simp
  from randomString_spec[OF this, of e w] obtain t2 where
    "randomString e n w = Some (t2, w\<lparr>rand_pos := rand_pos w + length t2\<rparr>)"
    by (elim exE conjE)
  with assms have "w' = w\<lparr>rand_pos := rand_pos w + length t2\<rparr>" by auto
  then show ?thesis by simp
qed

lemma CachedString_frame:
  assumes "CachedString e k s = Some (v, s')"
  shows "frame s s'"
proof (cases s)
  case (Pair a w)
  show ?thesis
  proof (cases "strings a k")
    case (Some u)
    with assms Pair show ?thesis by (simp add: CachedString_def frame_def)
  next
    case None
    show ?thesis
    proof (cases "randomString e 12 w")
      case None
      with assms Pair \<open>strings a k = None\<close> show ?thesis by (simp add: CachedString_def)
    next
      case (Some r)
      obtain t w' where r: "r = (t, w')" by (cases r)
      from randomString_frame[of e 12 w t w'] Some r
      have "events w' = events w \<and> sent w' = sent w" by simp
      with assms Pair \<open>strings a k = None\<close> Some r show ?thesis
        by (auto simp: CachedString_def frame_def)
    qed
  qed
qed

lemma exec_actions_frame: "frame s (snd (exec_actions e t buf s))"
proof (induction t arbitrary: buf s)
  case Nil
  show ?case by (simp add: frame_refl)
next
  case (Cons x r)
  show ?case
  proof (cases x)
    case (Call_CachedString k)
    show ?thesis
    proof (cases "CachedString e k s")
      case None
      with Call_CachedString show ?thesis by (simp add: frame_refl)
    next
      case (Some y)
      obtain v s' where y: "y = (v, s')" by (cases y)
      have c: "CachedString e k s = Some (v, s')" using Some y by simp
      from CachedString_frame[OF c] have f: "frame s s'" .
      have "frame s' (snd (exec_actions e r (buf @ v) s'))" by (rule Cons.IH)
      with f have "frame s (snd (exec_actions e r (buf @ v) s'))" by (rule frame_trans)
      with Call_CachedString c show ?thesis by simp
    qed
  qed (simp_all add: Cons.IH frame_refl)
qed

lemma ExecuteTemplate_frame: "frame s (snd (ExecuteTemplate e buf name s))"
  by (simp add: ExecuteTemplate_def exec_actions_frame frame_refl split: option.split)

lemma ExecuteTemplate_cases:
  obtains body rerr a1 w1 where "ExecuteTemplate e buf name (a, w) = ((body, rerr), a1, w1)"
    and "frame (a, w) (a1, w1)"
proof -
  obtain body rerr a1 w1 where x: "ExecuteTemplate e buf name (a, w) = ((body, rerr), a1, w1)"
    by (metis prod.exhaust)
  from ExecuteTemplate_frame[of "(a, w)" e buf name] x have "frame (a, w) (a1, w1)" by simp
  with x show ?thesis by (rule that)
qed


subsection \<open>Enroll\<close>

lemma frame_fields:
  assumes "frame (a, w) (a1, w1)"
  shows "ServerAddress a1 = ServerAddress a" and "EnrollSecret a1 = EnrollSecret a"
    and "NodeKey a1 = NodeKey a" and "UUID a1 = UUID a" and "Templates a1 = Templates a"
    and "events w1 = events w" and "sent w1 = sent w"
  using assms by (simp_all add: frame_def)

text \<open>
  C3. Enroll changes the session key only on full success. When the request cannot be
  created, when the exchange is a transport error, when the status is not 200 or when the
  body does not decode, the session key after the call is the one before it (the empty
  one on the first enrollment); otherwise it is the \<open>node_key\<close> of the decoded
  response. In every case Enroll returns: it is a total function of the agent's state.
\<close>

theorem C3_Enroll_session_key:
  "NodeKey (fst (Enroll e (a, w))) =
     (case http_NewRequest e ''POST'' (ServerAddress a @ ''/api/v1/osquery/enroll'') of
        Some err \<Rightarrow> NodeKey a
      | None \<Rightarrow>
          (case client_Do e (sent w)
                  (post_request (ServerAddress a @ ''/api/v1/osquery/enroll'')
                     (fst (fst (ExecuteTemplate e [] ''enroll'' (a, w))))) of
             Inl err \<Rightarrow> NodeKey a
           | Inr resp \<Rightarrow>
               (if StatusCode resp \<noteq> 200 then NodeKey a
                else (case json_Decode_enroll e (Body resp) of
                        Inl err \<Rightarrow> NodeKey a
                      | Inr parsedResp \<Rightarrow> er_NodeKey parsedResp))))"
proof -
  obtain body rerr a1 w1 where x: "ExecuteTemplate e [] ''enroll'' (a, w) = ((body, rerr), a1, w1)"
    and f: "frame (a, w) (a1, w1)"
    by (rule ExecuteTemplate_cases)
  note ff = frame_fields[OF f]
  show ?thesis
    by (simp add: Enroll_def x ff Client_Do_def StatusOK_def log_Println_def
        split: option.split sum.split)
qed

theorem C3_Enroll_session_key_witness:
  "NodeKey (fst (Enroll demo_env (demo_agent, world0))) = ''abc123''
   \<and> NodeKey demo_agent = []
   \<and> NodeKey (fst (Enroll failing_env (demo_agent, world0))) = []
   \<and> NodeKey (fst (Enroll down_env (demo_agent\<lparr>NodeKey := ''old''\<rparr>, world0))) = ''old''
   \<and> NodeKey (fst (Enroll garbled_env (demo_agent\<lparr>NodeKey := ''old''\<rparr>, world0))) = ''old''
   \<and> NodeKey (fst (Enroll url_checking_env (bad_url_agent, world0))) = []"
proof -
  have 1: "NodeKey (fst (Enroll demo_env (demo_agent, world0))) = ''abc123''"
    using C3_Enroll_session_key[of demo_env demo_agent world0]
    by (simp add: demo_env_def demo_agent_def world0_def fake_server_def post_request_def
        ok_response_def)
  have 2: "NodeKey (fst (Enroll failing_env (demo_agent, world0))) = []"
    using C3_Enroll_session_key[of failing_env demo_agent world0]
    by (simp add: failing_env_def demo_env_def demo_agent_def world0_def failing_server_def)
  have 3: "NodeKey (fst (Enroll down_env (demo_agent\<lparr>NodeKey := ''old''\<rparr>, world0))) = ''old''"
    using C3_Enroll_session_key[of down_env "demo_agent\<lparr>NodeKey := ''old''\<rparr>" world0]
    by (simp add: down_env_def demo_env_def demo_agent_def world0_def)
  have 4: "NodeKey (fst (Enroll garbled_env (demo_agent\<lparr>NodeKey := ''old''\<rparr>, world0))) = ''old''"
    using C3_Enroll_session_key[of garbled_env "demo_agent\<lparr>NodeKey := ''old''\<rparr>" world0]
    by (simp add: garbled_env_def demo_env_def demo_agent_def world0_def ok_response_def
        enroll_json_def)
  have 5: "NodeKey (fst (Enroll url_checking_env (bad_url_agent, world0))) = []"
    using C3_Enroll_session_key[of url_checking_env bad_url_agent world0]
    by (simp add: url_checking_env_def demo_env_def bad_url_agent_def demo_agent_def world0_def)
  from 1 2 3 4 5 show ?thesis by (simp add: demo_agent_def)
qed


subsection \<open>Projections of the event list\<close>

lemma requests_of_append: "requests_of (xs @ ys) = requests_of xs @ requests_of ys"
  by (induction xs rule: requests_of.induct) simp_all

lemma logs_of_append: "logs_of (xs @ ys) = logs_of xs @ logs_of ys"
  by (induction xs rule: logs_of.induct) simp_all

lemma steps_of_append: "steps_of (xs @ ys) = steps_of xs @ steps_of ys"
  by (induction xs rule: steps_of.induct) simp_all

subsection \<open>DistributedWrite\<close>


theorem C1_DistributedWrite_counterexample:
  "demo_queries ''kolide_detail_query_network_interface'' = Some ''select * from interface_details''
   \<and> requests_of (events (snd (DistributedWrite url_checking_env demo_queries (bad_url_agent, world0)))) = []"
  by (simp add: DistributedWrite_def demo_queries_def ExecuteTemplate_def bad_url_agent_def
      demo_agent_def demo_templates_def url_checking_env_def demo_env_def world0_def
      log_Println_def CachedString_def randomString_def randomString_loop.simps
      index_byte_def stringVals_def)

text \<open>
  C1, amended. Without the key \<open>kolide_detail_query_network_interface\<close> in the queries
  DistributedWrite returns the agent and the world exactly as they were: no request, no
  log line, no change of the cache. With the key it renders the \<open>distributed_write\<close>
  template and, provided \<^verbatim>\<open>http.NewRequest\<close> accepts the URL, hands exactly one
  request to the client, a POST to the server address followed by
  \<open>/api/v1/osquery/distributed/write\<close> with the rendered body. When the URL is refused
  it sends nothing and writes one log line.
\<close>

theorem C1_DistributedWrite_trigger:
  "(queries ''kolide_detail_query_network_interface'' = None \<longrightarrow>
      DistributedWrite e queries (a, w) = (a, w))
   \<and> (queries ''kolide_detail_query_network_interface'' \<noteq> None \<longrightarrow>
        (http_NewRequest e ''POST'' (ServerAddress a @ ''/api/v1/osquery/distributed/write'') = None \<longrightarrow>
           requests_of (events (snd (DistributedWrite e queries (a, w))))
             = requests_of (events w)
               @ [\<lparr>rq_method = ''POST'',
                   rq_url = ServerAddress a @ ''/api/v1/osquery/distributed/write'',
                   rq_header = osquery_header,
                   rq_body = fst (fst (ExecuteTemplate e [] ''distributed_write'' (a, w)))\<rparr>])
        \<and> (\<forall>err. http_NewRequest e ''POST'' (ServerAddress a @ ''/api/v1/osquery/distributed/write'') = Some err \<longrightarrow>
             events (snd (DistributedWrite e queries (a, w)))
               = events w @ [Log [''create distributed write request:'', err]]))"
proof -
  obtain body rerr a1 w1 where x: "ExecuteTemplate e [] ''distributed_write'' (a, w) = ((body, rerr), a1, w1)"
    and f: "frame (a, w) (a1, w1)"
    by (rule ExecuteTemplate_cases)
  note ff = frame_fields[OF f]
  show ?thesis
    by (auto simp: DistributedWrite_def x ff Client_Do_def StatusOK_def log_Println_def
        requests_of_append post_request_def split: option.split sum.split)
qed

lemma demo_write_body:
  \<open>fst (fst (ExecuteTemplate demo_env [] ''distributed_write'' (demo_agent\<lparr>NodeKey := ''abc123''\<rparr>, world0)))
     = ''{"node_key": "abc123", "mac": "dkryFMT07bip"}''\<close>
  by (simp add: ExecuteTemplate_def demo_agent_def demo_templates_def demo_env_def world0_def
      CachedString_def randomString_def randomString_loop.simps index_byte_def stringVals_def)

theorem C1_DistributedWrite_trigger_witness:
  \<open>DistributedWrite demo_env Map.empty (demo_agent, world0) = (demo_agent, world0)
   \<and> demo_queries ''kolide_detail_query_network_interface'' = Some ''select * from interface_details''
   \<and> requests_of (events (snd (DistributedWrite demo_env demo_queries (demo_agent\<lparr>NodeKey := ''abc123''\<rparr>, world0))))
       = [\<lparr>rq_method = ''POST'',
           rq_url = ''https://localhost:8080/api/v1/osquery/distributed/write'',
           rq_header = osquery_header,
           rq_body = ''{"node_key": "abc123", "mac": "dkryFMT07bip"}''\<rparr>]
   \<and> events (snd (DistributedWrite url_checking_env demo_queries (bad_url_agent, world0)))
       = [Log [''create distributed write request:'', ''invalid port ":port" after host'']]\<close>
proof -
  have q: "demo_queries ''kolide_detail_query_network_interface'' = Some ''select * from interface_details''"
    by (simp add: demo_queries_def)
  have 1: "DistributedWrite demo_env Map.empty (demo_agent, world0) = (demo_agent, world0)"
    using C1_DistributedWrite_trigger[of Map.empty demo_env demo_agent world0] by simp
  have 2: \<open>requests_of (events (snd (DistributedWrite demo_env demo_queries (demo_agent\<lparr>NodeKey := ''abc123''\<rparr>, world0))))
       = [\<lparr>rq_method = ''POST'',
           rq_url = ''https://localhost:8080/api/v1/osquery/distributed/write'',
           rq_header = osquery_header,
           rq_body = ''{"node_key": "abc123", "mac": "dkryFMT07bip"}''\<rparr>]\<close>
    using C1_DistributedWrite_trigger[of demo_queries demo_env "demo_agent\<lparr>NodeKey := ''abc123''\<rparr>" world0]
      q demo_write_body
    by (simp add: demo_env_def demo_agent_def world0_def)
  have 3: \<open>events (snd (DistributedWrite url_checking_env demo_queries (bad_url_agent, world0)))
       = [Log [''create distributed write request:'', ''invalid port ":port" after host'']]\<close>
    using C1_DistributedWrite_trigger[of demo_queries url_checking_env bad_url_agent world0] q
    by (simp add: url_checking_env_def demo_env_def bad_url_agent_def demo_agent_def world0_def)
  from q 1 2 3 show ?thesis by simp
qed

subsection \<open>DistributedRead\<close>

lemma DistributedRead_agent: "fst (snd (DistributedRead e (a, w))) = a"
  by (simp add: DistributedRead_def Client_Do_def split: option.split sum.split)

lemma DistributedRead_nil: "(fst (fst (DistributedRead e s)) = None) = (snd (fst (DistributedRead e s)) \<noteq> None)"
  by (cases s) (simp add: DistributedRead_def Client_Do_def split: option.split sum.split)

text \<open>
  C2. DistributedRead returns a result exactly when it returns no error. When the request
  is created, the exchange gives a response, the status is 200 and the body decodes, the
  result is the decoded response and the error is nil. In each of the four failures
  (request creation, transport, status, decoding) the result is nil and the error is the
  \<^verbatim>\<open>fmt.Errorf\<close> value that names the failed step and carries its cause. The agent is
  not changed.
\<close>

theorem C2_DistributedRead_result:
  "((fst (fst (DistributedRead e (a, w))) = None) = (snd (fst (DistributedRead e (a, w))) \<noteq> None))
   \<and> fst (snd (DistributedRead e (a, w))) = a
   \<and> (\<forall>err. http_NewRequest e ''POST'' (ServerAddress a @ ''/api/v1/osquery/distributed/read'') = Some err \<longrightarrow>
         fst (DistributedRead e (a, w)) = (None, Some (Errorf ''create distributed read request:'' err)))
   \<and> (http_NewRequest e ''POST'' (ServerAddress a @ ''/api/v1/osquery/distributed/read'') = None \<longrightarrow>
        (\<forall>err. client_Do e (sent w)
                 (post_request (ServerAddress a @ ''/api/v1/osquery/distributed/read'')
                    (node_key_body (NodeKey a))) = Inl err \<longrightarrow>
           fst (DistributedRead e (a, w)) = (None, Some (Errorf ''do distributed read request:'' err)))
        \<and> (\<forall>resp. client_Do e (sent w)
                 (post_request (ServerAddress a @ ''/api/v1/osquery/distributed/read'')
                    (node_key_body (NodeKey a))) = Inr resp \<longrightarrow>
             (StatusCode resp \<noteq> 200 \<longrightarrow>
                fst (DistributedRead e (a, w))
                  = (None, Some (Errorf ''distributed read status:'' (Status resp))))
             \<and> (StatusCode resp = 200 \<longrightarrow>
                  (\<forall>err. json_Decode_read e (Body resp) = Inl err \<longrightarrow>
                     fst (DistributedRead e (a, w))
                       = (None, Some (Errorf ''json parse distributed read response:'' err)))
                  \<and> (\<forall>parsedResp. json_Decode_read e (Body resp) = Inr parsedResp \<longrightarrow>
                       fst (DistributedRead e (a, w)) = (Some parsedResp, None)))))"
proof (intro conjI)
  show "(fst (fst (DistributedRead e (a, w))) = None) = (snd (fst (DistributedRead e (a, w))) \<noteq> None)"
    by (rule DistributedRead_nil)
  show "fst (snd (DistributedRead e (a, w))) = a"
    by (rule DistributedRead_agent)
  show "\<forall>err. http_NewRequest e ''POST'' (ServerAddress a @ ''/api/v1/osquery/distributed/read'') = Some err \<longrightarrow>
         fst (DistributedRead e (a, w)) = (None, Some (Errorf ''create distributed read request:'' err))"
    by (simp add: DistributedRead_def)
  show "http_NewRequest e ''POST'' (ServerAddress a @ ''/api/v1/osquery/distributed/read'') = None \<longrightarrow>
        (\<forall>err. client_Do e (sent w)
                 (post_request (ServerAddress a @ ''/api/v1/osquery/distributed/read'')
                    (node_key_body (NodeKey a))) = Inl err \<longrightarrow>
           fst (DistributedRead e (a, w)) = (None, Some (Errorf ''do distributed read request:'' err)))
        \<and> (\<forall>resp. client_Do e (sent w)
                 (post_request (ServerAddress a @ ''/api/v1/osquery/distributed/read'')
                    (node_key_body (NodeKey a))) = Inr resp \<longrightarrow>
             (StatusCode resp \<noteq> 200 \<longrightarrow>
                fst (DistributedRead e (a, w))
                  = (None, Some (Errorf ''distributed read status:'' (Status resp))))
             \<and> (StatusCode resp = 200 \<longrightarrow>
                  (\<forall>err. json_Decode_read e (Body resp) = Inl err \<longrightarrow>
                     fst (DistributedRead e (a, w))
                       = (None, Some (Errorf ''json parse distributed read response:'' err)))
                  \<and> (\<forall>parsedResp. json_Decode_read e (Body resp) = Inr parsedResp \<longrightarrow>
                       fst (DistributedRead e (a, w)) = (Some parsedResp, None))))"
    by (simp add: DistributedRead_def Client_Do_def StatusOK_def)
qed

theorem C2_DistributedRead_result_witness:
  \<open>fst (DistributedRead demo_env (demo_agent, world0)) = (Some \<lparr>Queries = demo_queries\<rparr>, None)
   \<and> fst (DistributedRead failing_env (demo_agent, world0))
       = (None, Some (Errorf ''distributed read status:'' ''500 Internal Server Error''))
   \<and> fst (DistributedRead down_env (demo_agent, world0))
       = (None, Some (Errorf ''do distributed read request:''
                        ''dial tcp 127.0.0.1:8080: connect: connection refused''))
   \<and> fst (DistributedRead garbled_env (demo_agent, world0))
       = (None, Some (Errorf ''json parse distributed read response:'' ''unexpected end of JSON input''))
   \<and> fst (DistributedRead url_checking_env (bad_url_agent, world0))
       = (None, Some (Errorf ''create distributed read request:'' ''invalid port ":port" after host''))\<close>
proof -
  have 1: "fst (DistributedRead demo_env (demo_agent, world0)) = (Some \<lparr>Queries = demo_queries\<rparr>, None)"
    using C2_DistributedRead_result[of demo_env demo_agent world0]
    by (simp add: demo_env_def demo_agent_def world0_def fake_server_def post_request_def
        ok_response_def)
  have 2: "fst (DistributedRead failing_env (demo_agent, world0))
       = (None, Some (Errorf ''distributed read status:'' ''500 Internal Server Error''))"
    using C2_DistributedRead_result[of failing_env demo_agent world0]
    by (simp add: failing_env_def demo_env_def demo_agent_def world0_def failing_server_def)
  have 3: "fst (DistributedRead down_env (demo_agent, world0))
       = (None, Some (Errorf ''do distributed read request:''
                        ''dial tcp 127.0.0.1:8080: connect: connection refused''))"
    using C2_DistributedRead_result[of down_env demo_agent world0]
    by (simp add: down_env_def demo_env_def demo_agent_def world0_def)
  have 4: "fst (DistributedRead garbled_env (demo_agent, world0))
       = (None, Some (Errorf ''json parse distributed read response:'' ''unexpected end of JSON input''))"
    using C2_DistributedRead_result[of garbled_env demo_agent world0]
    by (simp add: garbled_env_def demo_env_def demo_agent_def world0_def ok_response_def
        read_json_def)
  have 5: \<open>fst (DistributedRead url_checking_env (bad_url_agent, world0))
       = (None, Some (Errorf ''create distributed read request:'' ''invalid port ":port" after host''))\<close>
    using C2_DistributedRead_result[of url_checking_env bad_url_agent world0]
    by (simp add: url_checking_env_def demo_env_def bad_url_agent_def demo_agent_def world0_def)
  from 1 2 3 4 5 show ?thesis by simp
qed


subsection \<open>The body of Config and DistributedRead\<close>

lemma json_chars_plain:
  "list_all plain_char k \<Longrightarrow> json_chars acc (k @ CHR 0x22 # rest) = Some (acc @ k, rest)"
proof (induction k arbitrary: acc)
  case Nil
  show ?case by simp
next
  case (Cons c k)
  from Cons.prems have c: "plain_char c" and k: "list_all plain_char k" by simp_all
  from c have "c \<noteq> CHR 0x22" "c \<noteq> CHR 0x5C" "\<not> (of_char c :: nat) < 0x20"
    by (simp_all add: plain_char_def)
  then show ?case using Cons.IH[OF k, of "acc @ [c]"] by simp
qed

lemma json_node_key_body:
  assumes "list_all plain_char k"
  shows "json_node_key_object (node_key_body k) = Some k"
proof -
  have name: \<open>json_chars [] (''node_key": "'' @ k @ ''"}'') = Some (''node_key'', '': "'' @ k @ ''"}'')\<close>
    using json_chars_plain[of "''node_key''" "[]" \<open>'': "'' @ k @ ''"}''\<close>]
    by (simp add: plain_char_def)
  have val: \<open>json_chars [] (k @ ''"}'') = Some (k, ''}'')\<close>
    using json_chars_plain[OF assms, of "[]" "''}''"] by simp
  show ?thesis
    using name val
    by (simp add: json_node_key_object_def node_key_body_def skip_ws_def json_ws_def json_string_def)
qed

theorem C7_node_key_body_counterexample:
  \<open>NodeKey quote_key_agent = [CHR 0x22]
   \<and> map rq_body (requests_of (events (snd (Config demo_env (quote_key_agent, world0)))))
       = [''{"node_key": """}'']
   \<and> json_node_key_object ''{"node_key": """}'' = None\<close>
  by (simp add: Config_def quote_key_agent_def demo_agent_def demo_env_def world0_def
      Client_Do_def fake_server_def post_request_def ok_response_def StatusOK_def
      node_key_body_def json_node_key_object_def skip_ws_def json_ws_def json_string_def)

text \<open>
  C7, amended. The body Config sends, and likewise the body DistributedRead sends, is the
  text \<open>{"node_key": "\<close> followed by the bytes of the current session key as they are
  and by \<open>"}\<close>; nothing is escaped. When the session key consists of ASCII characters
  other than control characters, the quote and the backslash, that body is a well-formed
  JSON object whose only member \<open>node_key\<close> has the session key as its value.
\<close>

theorem C7_node_key_body:
  \<open>(http_NewRequest e ''POST'' (ServerAddress a @ ''/api/v1/osquery/config'') = None \<longrightarrow>
      map rq_body (requests_of (events (snd (Config e (a, w)))))
        = map rq_body (requests_of (events w)) @ [''{"node_key": "'' @ NodeKey a @ ''"}''])
   \<and> (http_NewRequest e ''POST'' (ServerAddress a @ ''/api/v1/osquery/distributed/read'') = None \<longrightarrow>
      map rq_body (requests_of (events (snd (snd (DistributedRead e (a, w))))))
        = map rq_body (requests_of (events w)) @ [''{"node_key": "'' @ NodeKey a @ ''"}''])
   \<and> (list_all plain_char (NodeKey a) \<longrightarrow>
        json_node_key_object (''{"node_key": "'' @ NodeKey a @ ''"}'') = Some (NodeKey a))\<close>
proof (intro conjI impI)
  assume "http_NewRequest e ''POST'' (ServerAddress a @ ''/api/v1/osquery/config'') = None"
  then show \<open>map rq_body (requests_of (events (snd (Config e (a, w)))))
        = map rq_body (requests_of (events w)) @ [''{"node_key": "'' @ NodeKey a @ ''"}'']\<close>
    by (simp add: Config_def Client_Do_def log_Println_def requests_of_append post_request_def
        node_key_body_def split: sum.split)
next
  assume "http_NewRequest e ''POST'' (ServerAddress a @ ''/api/v1/osquery/distributed/read'') = None"
  then show \<open>map rq_body (requests_of (events (snd (snd (DistributedRead e (a, w))))))
        = map rq_body (requests_of (events w)) @ [''{"node_key": "'' @ NodeKey a @ ''"}'']\<close>
    by (simp add: DistributedRead_def Client_Do_def requests_of_append post_request_def
        node_key_body_def split: sum.split)
next
  assume "list_all plain_char (NodeKey a)"
  then show \<open>json_node_key_object (''{"node_key": "'' @ NodeKey a @ ''"}'') = Some (NodeKey a)\<close>
    using json_node_key_body[of "NodeKey a"] by (simp add: node_key_body_def)
qed

theorem C7_node_key_body_witness:
  \<open>list_all plain_char ''abc123''
   \<and> map rq_body (requests_of (events (snd (Config demo_env (demo_agent\<lparr>NodeKey := ''abc123''\<rparr>, world0)))))
       = [''{"node_key": "abc123"}'']
   \<and> map rq_body (requests_of (events (snd (snd (DistributedRead demo_env (demo_agent\<lparr>NodeKey := ''abc123''\<rparr>, world0))))))
       = [''{"node_key": "abc123"}'']
   \<and> json_node_key_object ''{"node_key": "abc123"}'' = Some ''abc123''\<close>
proof -
  have p: "list_all plain_char ''abc123''"
    by (simp add: plain_char_def)
  have n: "http_NewRequest demo_env ''POST'' u = None" for u
    by (simp add: demo_env_def)
  note T = C7_node_key_body[of demo_env "demo_agent\<lparr>NodeKey := ''abc123''\<rparr>" world0]
  from T[THEN conjunct1, THEN mp, OF n]
  have 1: \<open>map rq_body (requests_of (events (snd (Config demo_env (demo_agent\<lparr>NodeKey := ''abc123''\<rparr>, world0)))))
       = [''{"node_key": "abc123"}'']\<close>
    by (simp add: world0_def)
  from T[THEN conjunct2, THEN conjunct1, THEN mp, OF n]
  have 2: \<open>map rq_body (requests_of (events (snd (snd (DistributedRead demo_env (demo_agent\<lparr>NodeKey := ''abc123''\<rparr>, world0))))))
       = [''{"node_key": "abc123"}'']\<close>
    by (simp add: world0_def)
  from T[THEN conjunct2, THEN conjunct2] p
  have 3: \<open>json_node_key_object ''{"node_key": "abc123"}'' = Some ''abc123''\<close>
    by simp
  from p 1 2 3 show ?thesis by simp
qed


subsection \<open>The run loop\<close>

lemma Config_steps: "steps_of (events (snd (Config e s))) = steps_of (events (snd s))"
  by (cases s)
     (simp add: Config_def Client_Do_def log_Println_def steps_of_append
        split: option.split sum.split)

lemma DistributedRead_steps:
  "steps_of (events (snd (snd (DistributedRead e s)))) = steps_of (events (snd s))"
  by (cases s)
     (simp add: DistributedRead_def Client_Do_def steps_of_append split: option.split sum.split)


lemma DistributedWrite_steps:
  "steps_of (events (snd (DistributedWrite e q s))) = steps_of (events (snd s))"
proof (cases s)
  case (Pair a w)
  obtain body rerr a1 w1 where x: "ExecuteTemplate e [] ''distributed_write'' (a, w) = ((body, rerr), a1, w1)"
    and f: "frame (a, w) (a1, w1)"
    by (rule ExecuteTemplate_cases)
  note ff = frame_fields[OF f]
  show ?thesis
    by (simp add: Pair DistributedWrite_def x ff Client_Do_def log_Println_def steps_of_append
        split: option.split sum.split)
qed

lemma invoke_steps: "steps_of (events (snd (invoke c s))) = steps_of (events (snd s)) @ [Invoke c]"
  by (simp add: invoke_def steps_of_append)

lemma time_Sleep_steps: "steps_of (events (time_Sleep d w)) = steps_of (events w) @ [Sleep d]"
  by (simp add: time_Sleep_def steps_of_append)

lemma log_Println_error_steps: "steps_of (events (log_Println_error er w)) = steps_of (events w)"
  by (simp add: log_Println_error_def steps_of_append)

text \<open>An iteration never panics, and its steps are those of \<open>cycle_steps\<close>.\<close>

lemma runLoop_body_steps:
  "\<exists>s'. runLoop_body e s = Some s'
        \<and> steps_of (events (snd s')) = steps_of (events (snd s)) @ cycle_steps (read_result e s)"
proof -
  let ?s1 = "invoke DistributedReadCall (Config e (invoke ConfigCall s))"
  obtain resp err s2 where r: "DistributedRead e ?s1 = ((resp, err), s2)"
    by (metis prod.exhaust)
  have rr: "read_result e s = (resp, err)"
    using r by (simp add: read_result_def)
  have nil: "(resp = None) = (err \<noteq> None)"
    using DistributedRead_nil[of e ?s1] r by simp
  have st2: "steps_of (events (snd s2))
      = steps_of (events (snd s)) @ [Invoke ConfigCall, Invoke DistributedReadCall]"
    using DistributedRead_steps[of e ?s1] r by (simp add: invoke_steps Config_steps)
  show ?thesis
  proof (cases err)
    case (Some er)
    have "runLoop_body e s = Some (fst s2, time_Sleep (10 * Second) (log_Println_error er (snd s2)))"
      using r Some by (simp add: runLoop_body_def)
    moreover have "steps_of (events (time_Sleep (10 * Second) (log_Println_error er (snd s2))))
      = steps_of (events (snd s)) @ cycle_steps (read_result e s)"
      using Some nil by (simp add: time_Sleep_steps log_Println_error_steps st2 rr cycle_steps_def)
    ultimately show ?thesis by simp
  next
    case None
    with nil obtain rs where rs: "resp = Some rs" by auto
    obtain a3 w3 where d: "DistributedWrite e (Queries rs) (invoke (DistributedWriteCall (Queries rs)) s2) = (a3, w3)"
      by (metis prod.exhaust)
    have "steps_of (events w3) = steps_of (events (snd s2)) @ [Invoke (DistributedWriteCall (Queries rs))]"
      using DistributedWrite_steps[of e "Queries rs" "invoke (DistributedWriteCall (Queries rs)) s2"] d
      by (simp add: invoke_steps)
    then have "steps_of (events (time_Sleep (10 * Second) w3))
      = steps_of (events (snd s)) @ cycle_steps (read_result e s)"
      using None rs by (simp add: time_Sleep_steps st2 rr cycle_steps_def)
    moreover have "runLoop_body e s = Some (a3, time_Sleep (10 * Second) w3)"
      using r None rs d by (simp add: runLoop_body_def)
    ultimately show ?thesis by simp
  qed
qed


text \<open>The \<^verbatim>\<open>for\<close> statement never ends.\<close>

lemma runLoop_for_never_ends: "runLoop_for e s = None"
proof (cases "runLoop_for e s")
  case None
  then show ?thesis .
next
  case (Some y)
  have False
  proof (rule runLoop_for.raw_induct[where P = "\<lambda>e s y. False", OF _ Some])
    fix f :: "env \<Rightarrow> Agent \<times> world \<Rightarrow> (Agent \<times> world) option" and e1 s1 y1
    assume IH: "\<And>s b y. f s b = Some y \<Longrightarrow> False"
      and eq: "(case runLoop_body e1 s1 of None \<Rightarrow> Some s1 | Some s' \<Rightarrow> f e1 s') = Some y1"
    obtain s2 where b: "runLoop_body e1 s1 = Some s2"
      using runLoop_body_steps[of e1 s1] by (elim exE conjE)
    from eq b have "f e1 s2 = Some y1" by simp
    then show False by (rule IH)
  qed
  then show ?thesis ..
qed
















subsection \<open>Rendering failures\<close>

lemma Enroll_events:
  assumes x: "ExecuteTemplate e [] ''enroll'' (a, w) = ((body, rerr), a1, w1)"
  shows "events (snd (Enroll e (a, w)))
     = events w
       @ (case http_NewRequest e ''POST'' (ServerAddress a @ ''/api/v1/osquery/enroll'') of
            Some err \<Rightarrow> [Log [''create request:'', err]]
          | None \<Rightarrow>
              HttpDo (post_request (ServerAddress a @ ''/api/v1/osquery/enroll'') body)
              # (case client_Do e (sent w)
                        (post_request (ServerAddress a @ ''/api/v1/osquery/enroll'') body) of
                   Inl err \<Rightarrow> [Log [''do request:'', err]]
                 | Inr resp \<Rightarrow>
                     (if StatusCode resp \<noteq> 200 then [Log [''status:'', Status resp]]
                      else (case json_Decode_enroll e (Body resp) of
                              Inl err \<Rightarrow> [Log [''json parse:'', err]]
                            | Inr parsedResp \<Rightarrow> []))))"
proof -
  from ExecuteTemplate_frame[of "(a, w)" e "[]" "''enroll''"] x
  have "frame (a, w) (a1, w1)" by simp
  note ff = frame_fields[OF this]
  show ?thesis
    by (simp add: Enroll_def x ff Client_Do_def StatusOK_def log_Println_def
        split: option.split sum.split)
qed

lemma DistributedWrite_events:
  assumes x: "ExecuteTemplate e [] ''distributed_write'' (a, w) = ((body, rerr), a1, w1)"
    and q: "queries ''kolide_detail_query_network_interface'' \<noteq> None"
  shows "events (snd (DistributedWrite e queries (a, w)))
     = events w
       @ (case http_NewRequest e ''POST'' (ServerAddress a @ ''/api/v1/osquery/distributed/write'') of
            Some err \<Rightarrow> [Log [''create distributed write request:'', err]]
          | None \<Rightarrow>
              HttpDo (post_request (ServerAddress a @ ''/api/v1/osquery/distributed/write'') body)
              # (case client_Do e (sent w)
                        (post_request (ServerAddress a @ ''/api/v1/osquery/distributed/write'') body) of
                   Inl err \<Rightarrow> [Log [''do distributed write request:'', err]]
                 | Inr resp \<Rightarrow>
                     (if StatusCode resp \<noteq> 200
                      then [Log [''distributed write status:'', Status resp]]
                      else [])))"
proof -
  from ExecuteTemplate_frame[of "(a, w)" e "[]" "''distributed_write''"] x
  have "frame (a, w) (a1, w1)" by simp
  note ff = frame_fields[OF this]
  from q obtain v where v: "queries ''kolide_detail_query_network_interface'' = Some v" by auto
  show ?thesis
    by (simp add: DistributedWrite_def v x ff Client_Do_def StatusOK_def log_Println_def
        split: option.split sum.split)
qed

text \<open>The example server, as far as the enrollment and the write are concerned.\<close>

lemma demo_env_exchange:
  "http_NewRequest demo_env m u = None"
  "client_Do demo_env k (post_request ''https://localhost:8080/api/v1/osquery/enroll'' b)
     = Inr (ok_response enroll_json)"
  "client_Do demo_env k (post_request ''https://localhost:8080/api/v1/osquery/distributed/write'' b)
     = Inr (ok_response [])"
  "json_Decode_enroll demo_env enroll_json = Inr \<lparr>er_NodeKey = ''abc123''\<rparr>"
  by (simp_all add: demo_env_def fake_server_def post_request_def)

lemma failing_template_render:
  \<open>ExecuteTemplate demo_env [] ''enroll'' (failing_template_agent, world0)
     = ((''{"enroll_secret": "'', Some ''can not evaluate field Secret''), failing_template_agent, world0)\<close>
  \<open>ExecuteTemplate demo_env [] ''distributed_write'' (failing_template_agent, world0)
     = ((''{"node_key": "'', Some ''can not evaluate field Key''), failing_template_agent, world0)\<close>
  by (simp_all add: ExecuteTemplate_def failing_template_agent_def)

lemma world0_fields: "events world0 = []" "sent world0 = 0" "rand_pos world0 = 0"
  by (simp_all add: world0_def)

lemma failing_template_address:
  "ServerAddress failing_template_agent = ''https://localhost:8080''"
  by (simp add: failing_template_agent_def demo_agent_def)

theorem C8_render_failure_counterexample:
  \<open>ExecuteTemplate demo_env [] ''enroll'' (failing_template_agent, world0)
     = ((''{"enroll_secret": "'', Some ''can not evaluate field Secret''), failing_template_agent, world0)
   \<and> logs_of (events (snd (Enroll demo_env (failing_template_agent, world0)))) = []
   \<and> map rq_body (requests_of (events (snd (Enroll demo_env (failing_template_agent, world0)))))
       = [''{"enroll_secret": "'']\<close>
proof -
  have "events (snd (Enroll demo_env (failing_template_agent, world0)))
      = [HttpDo (post_request ''https://localhost:8080/api/v1/osquery/enroll''
                   (fst (fst (ExecuteTemplate demo_env [] ''enroll'' (failing_template_agent, world0)))))]"
    by (simp add: Enroll_events[OF failing_template_render(1)] failing_template_render
        failing_template_address demo_env_exchange ok_response_def world0_fields)
  then show ?thesis
    by (simp add: failing_template_render post_request_def)
qed

text \<open>
  C8, amended. A failure of rendering the \<open>enroll\<close> or the \<open>distributed_write\<close>
  template is not logged, and it is not fatal: the error is dropped. Whatever the rendering
  returns, the operation does one of two things. When \<^verbatim>\<open>http.NewRequest\<close> accepts
  the URL it proceeds with the body rendered so far (the partial body after a failure): it
  hands the request to the client, and what follows is at most one log line, which reports
  the exchange (transport error, status or decoding). When \<^verbatim>\<open>http.NewRequest\<close>
  refuses the URL it skips sending: the only event is the log line about the refused URL.
  In neither case does a log line report the rendering. The operation returns, and the run
  loop never ends.
\<close>

theorem C8_render_failure_not_logged:
  "events (snd (Enroll e (a, w)))
     = events w
       @ (case http_NewRequest e ''POST'' (ServerAddress a @ ''/api/v1/osquery/enroll'') of
            Some err \<Rightarrow> [Log [''create request:'', err]]
          | None \<Rightarrow>
              HttpDo (post_request (ServerAddress a @ ''/api/v1/osquery/enroll'')
                        (fst (fst (ExecuteTemplate e [] ''enroll'' (a, w)))))
              # (case client_Do e (sent w)
                        (post_request (ServerAddress a @ ''/api/v1/osquery/enroll'')
                           (fst (fst (ExecuteTemplate e [] ''enroll'' (a, w))))) of
                   Inl err \<Rightarrow> [Log [''do request:'', err]]
                 | Inr resp \<Rightarrow>
                     (if StatusCode resp \<noteq> 200 then [Log [''status:'', Status resp]]
                      else (case json_Decode_enroll e (Body resp) of
                              Inl err \<Rightarrow> [Log [''json parse:'', err]]
                            | Inr parsedResp \<Rightarrow> []))))
   \<and> (queries ''kolide_detail_query_network_interface'' \<noteq> None \<longrightarrow>
        events (snd (DistributedWrite e queries (a, w)))
          = events w
            @ (case http_NewRequest e ''POST'' (ServerAddress a @ ''/api/v1/osquery/distributed/write'') of
                 Some err \<Rightarrow> [Log [''create distributed write request:'', err]]
               | None \<Rightarrow>
                   HttpDo (post_request (ServerAddress a @ ''/api/v1/osquery/distributed/write'')
                             (fst (fst (ExecuteTemplate e [] ''distributed_write'' (a, w)))))
                   # (case client_Do e (sent w)
                             (post_request (ServerAddress a @ ''/api/v1/osquery/distributed/write'')
                                (fst (fst (ExecuteTemplate e [] ''distributed_write'' (a, w))))) of
                        Inl err \<Rightarrow> [Log [''do distributed write request:'', err]]
                      | Inr resp \<Rightarrow>
                          (if StatusCode resp \<noteq> 200
                           then [Log [''distributed write status:'', Status resp]]
                           else []))))
   \<and> runLoop e (a, w) = None"
proof -
  let ?X1 = "ExecuteTemplate e [] ''enroll'' (a, w)"
  let ?X2 = "ExecuteTemplate e [] ''distributed_write'' (a, w)"
  have x1: "?X1 = ((fst (fst ?X1), snd (fst ?X1)), fst (snd ?X1), snd (snd ?X1))" by simp
  have x2: "?X2 = ((fst (fst ?X2), snd (fst ?X2)), fst (snd ?X2), snd (snd ?X2))" by simp
  show ?thesis
  proof (intro conjI impI)
    show "runLoop e (a, w) = None"
      by (simp add: runLoop_def runLoop_for_never_ends)
  qed (rule Enroll_events[OF x1], rule DistributedWrite_events[OF x2])
qed

lemma url_checking_refuses:
  \<open>http_NewRequest url_checking_env m ''https://localhost:port/api/v1/osquery/enroll''
     = Some ''invalid port ":port" after host''\<close>
  \<open>http_NewRequest url_checking_env m ''https://localhost:port/api/v1/osquery/distributed/write''
     = Some ''invalid port ":port" after host''\<close>
  by (simp_all add: url_checking_env_def)

lemma failing_template_bad_url_render:
  \<open>ExecuteTemplate url_checking_env [] ''enroll'' (failing_template_bad_url_agent, world0)
     = ((''{"enroll_secret": "'', Some ''can not evaluate field Secret''),
        failing_template_bad_url_agent, world0)\<close>
  \<open>ExecuteTemplate url_checking_env [] ''distributed_write'' (failing_template_bad_url_agent, world0)
     = ((''{"node_key": "'', Some ''can not evaluate field Key''),
        failing_template_bad_url_agent, world0)\<close>
  by (simp_all add: ExecuteTemplate_def failing_template_bad_url_agent_def failing_template_agent_def)

lemma failing_template_bad_url_address:
  "ServerAddress failing_template_bad_url_agent = ''https://localhost:port''"
  by (simp add: failing_template_bad_url_agent_def)

theorem C8_render_failure_not_logged_witness:
  \<open>snd (fst (ExecuteTemplate demo_env [] ''enroll'' (failing_template_agent, world0)))
     = Some ''can not evaluate field Secret''
   \<and> events (snd (Enroll demo_env (failing_template_agent, world0)))
       = [HttpDo (post_request ''https://localhost:8080/api/v1/osquery/enroll'' ''{"enroll_secret": "'')]
   \<and> snd (fst (ExecuteTemplate demo_env [] ''distributed_write'' (failing_template_agent, world0)))
       = Some ''can not evaluate field Key''
   \<and> demo_queries ''kolide_detail_query_network_interface'' = Some ''select * from interface_details''
   \<and> events (snd (DistributedWrite demo_env demo_queries (failing_template_agent, world0)))
       = [HttpDo (post_request ''https://localhost:8080/api/v1/osquery/distributed/write'' ''{"node_key": "'')]
   \<and> runLoop demo_env (failing_template_agent, world0) = None
   \<and> snd (fst (ExecuteTemplate url_checking_env [] ''enroll'' (failing_template_bad_url_agent, world0)))
       = Some ''can not evaluate field Secret''
   \<and> events (snd (Enroll url_checking_env (failing_template_bad_url_agent, world0)))
       = [Log [''create request:'', ''invalid port ":port" after host'']]
   \<and> snd (fst (ExecuteTemplate url_checking_env [] ''distributed_write'' (failing_template_bad_url_agent, world0)))
       = Some ''can not evaluate field Key''
   \<and> events (snd (DistributedWrite url_checking_env demo_queries (failing_template_bad_url_agent, world0)))
       = [Log [''create distributed write request:'', ''invalid port ":port" after host'']]
   \<and> runLoop url_checking_env (failing_template_bad_url_agent, world0) = None\<close>
proof -
  have q: "demo_queries ''kolide_detail_query_network_interface'' = Some ''select * from interface_details''"
    by (simp add: demo_queries_def)
  note T = C8_render_failure_not_logged[of demo_env failing_template_agent world0 demo_queries]
  note U = C8_render_failure_not_logged[of url_checking_env failing_template_bad_url_agent world0 demo_queries]
  from T[THEN conjunct1]
  have 1: \<open>events (snd (Enroll demo_env (failing_template_agent, world0)))
       = [HttpDo (post_request ''https://localhost:8080/api/v1/osquery/enroll'' ''{"enroll_secret": "'')]\<close>
    by (simp add: failing_template_render failing_template_address demo_env_exchange
        ok_response_def world0_fields)
  from T[THEN conjunct2, THEN conjunct1] q
  have 2: \<open>events (snd (DistributedWrite demo_env demo_queries (failing_template_agent, world0)))
       = [HttpDo (post_request ''https://localhost:8080/api/v1/osquery/distributed/write'' ''{"node_key": "'')]\<close>
    by (simp add: failing_template_render failing_template_address demo_env_exchange
        ok_response_def world0_fields)
  from T[THEN conjunct2, THEN conjunct2]
  have 3: "runLoop demo_env (failing_template_agent, world0) = None" .
  from U[THEN conjunct1]
  have 4: \<open>events (snd (Enroll url_checking_env (failing_template_bad_url_agent, world0)))
       = [Log [''create request:'', ''invalid port ":port" after host'']]\<close>
    by (simp add: failing_template_bad_url_address url_checking_refuses world0_fields)
  from U[THEN conjunct2, THEN conjunct1] q
  have 5: \<open>events (snd (DistributedWrite url_checking_env demo_queries (failing_template_bad_url_agent, world0)))
       = [Log [''create distributed write request:'', ''invalid port ":port" after host'']]\<close>
    by (simp add: failing_template_bad_url_address url_checking_refuses world0_fields)
  from U[THEN conjunct2, THEN conjunct2]
  have 6: "runLoop url_checking_env (failing_template_bad_url_agent, world0) = None" .
  from q 1 2 3 4 5 6 show ?thesis
    by (simp add: failing_template_render failing_template_bad_url_render)
qed


subsection \<open>The launcher\<close>

lemma map_upt_Suc_shift: "map f [0..<Suc n] = f 0 # map (\<lambda>j. f (Suc j)) [0..<n]"
  by (simp only: map_upt_Suc)

text \<open>The loop of \<^verbatim>\<open>main\<close> in closed form.\<close>

lemma main_loop_closed:
  "main_loop le fl tmpl d i L
     = L\<lparr>agents := agents L
           @ map (\<lambda>j. NewAgent le (length (agents L) + j) (server_url fl) (enroll_secret fl) tmpl)
               [0..<nat (host_count fl - i)],
         started := started L
           @ map (\<lambda>j. (length (agents L) + j,
                        clock L + (\<Sum>r<j. max 0 d + int (oversleep le (naps L + r)))))
               [0..<nat (host_count fl - i)],
         clock := clock L + (\<Sum>r<nat (host_count fl - i). max 0 d + int (oversleep le (naps L + r))),
         naps := naps L + nat (host_count fl - i)\<rparr>"
proof (induction le fl tmpl d i L rule: main_loop.induct)
  case (1 le fl tmpl d i L)
  show ?case
  proof (cases "i < host_count fl")
    case False
    then show ?thesis by (simp add: main_loop.simps[of le fl tmpl d i L])
  next
    case True
    then have m: "nat (host_count fl - i) = Suc (nat (host_count fl - (i + 1)))" by simp
    show ?thesis
      apply (subst main_loop.simps)
      apply (simp only: True if_True "1.IH"[OF True] m)
      apply (simp add: main_Sleep_def map_upt_Suc_shift sum.lessThan_Suc_shift add.assoc del: upt_Suc sum.lessThan_Suc)
      done
  qed
qed

lemma go_div_window:
  assumes "1 \<le> n"
  shows "go_div (10 * Second) n = Some (10000000000 div n)" and "0 \<le> 10000000000 div n"
proof -
  from assms have "n \<noteq> 0" "sgn n = 1" "\<bar>n\<bar> = n" by simp_all
  then show "go_div (10 * Second) n = Some (10000000000 div n)"
    by (simp add: go_div_def Second_def signed_divide_int_def)
  from assms show "0 \<le> 10000000000 div n"
    by (simp add: pos_imp_zdiv_nonneg_iff)
qed

lemma sum_delay_lower: "int k * d \<le> (\<Sum>r<k. d + int (f r))"
proof -
  have "(\<Sum>r<k. d + int (f r)) = int k * d + (\<Sum>r<k. int (f r))"
    by (simp add: sum.distrib)
  moreover have "0 \<le> (\<Sum>r<k. int (f r))"
    by (rule sum_nonneg) simp
  ultimately show ?thesis by simp
qed

text \<open>
  C9. For a host count \<open>N \<ge> 1\<close> the launcher computes the delay \<open>d\<close> as the
  10-second window divided by \<open>N\<close> (an integer division of nanoseconds), creates the
  \<open>N\<close> agents one after the other, starts the run loop of each right after creating it
  and then sleeps \<open>d\<close> before creating the next. The \<open>k\<close>-th agent (counting from 0)
  is started after \<open>k\<close> such sleeps, each of which lasts \<open>d\<close> plus what it
  oversleeps, hence no earlier than \<open>k \<times> d\<close> after the start of the launcher. After
  the last sleep the launcher prints its line and blocks. This is what \<^verbatim>\<open>main\<close>
  does once the templates have parsed.
\<close>

theorem C9_staggered_start:
  assumes "1 \<le> host_count fl"
  shows "\<exists>d L. go_div (10 * Second) (host_count fl) = Some d
      \<and> d = 10000000000 div host_count fl \<and> 0 \<le> d
      \<and> launch le fl tmpl launcher0 = Blocked L
      \<and> int (length (agents L)) = host_count fl
      \<and> agents L = map (\<lambda>k. NewAgent le k (server_url fl) (enroll_secret fl) tmpl)
                      [0..<nat (host_count fl)]
      \<and> map fst (started L) = [0..<nat (host_count fl)]
      \<and> (\<forall>k<nat (host_count fl).
            snd (started L ! k) = (\<Sum>r<k. d + int (oversleep le r))
            \<and> int k * d \<le> snd (started L ! k))
      \<and> naps L = nat (host_count fl)
      \<and> printed L = [''Agents running. Kill with C-c.'']
      \<and> (template_ParseGlob le ''*.tmpl'' = Inr tmpl \<longrightarrow> main le fl = Blocked L)"
proof -
  let ?N = "nat (host_count fl)"
  let ?d = "10000000000 div host_count fl"
  let ?L = "(main_loop le fl tmpl ?d 0 launcher0)\<lparr>printed := [''Agents running. Kill with C-c.'']\<rparr>"
  note g = go_div_window[OF assms]
  have d0: "max 0 ?d = ?d" using g(2) by simp
  have l: "launch le fl tmpl launcher0 = Blocked ?L"
    by (simp add: launch_def g(1) main_loop_closed launcher0_def)
  have ag: "agents ?L = map (\<lambda>k. NewAgent le k (server_url fl) (enroll_secret fl) tmpl) [0..<?N]"
    by (simp add: main_loop_closed launcher0_def)
  have st: "started ?L = map (\<lambda>j. (j, (\<Sum>r<j. ?d + int (oversleep le r)))) [0..<?N]"
    by (simp add: main_loop_closed launcher0_def d0)
  have len: "int (length (agents ?L)) = host_count fl"
    using assms by (simp add: ag)
  have fst: "map fst (started ?L) = [0..<?N]"
    by (simp add: st comp_def)
  have times: "\<forall>k<?N. snd (started ?L ! k) = (\<Sum>r<k. ?d + int (oversleep le r))
            \<and> int k * ?d \<le> snd (started ?L ! k)"
    by (simp add: st sum_delay_lower)
  have np: "naps ?L = ?N"
    by (simp add: main_loop_closed launcher0_def)
  have pr: "printed ?L = [''Agents running. Kill with C-c.'']"
    by simp
  have mn: "template_ParseGlob le ''*.tmpl'' = Inr tmpl \<longrightarrow> main le fl = Blocked ?L"
    using l by (simp add: main_def)
  show ?thesis
    apply (rule exI[of _ ?d], rule exI[of _ ?L])
    apply (intro conjI)
    apply (rule g(1))
    apply (rule refl)
    apply (rule g(2))
    apply (rule l)
    apply (rule len)
    apply (rule ag)
    apply (rule fst)
    apply (rule times)
    apply (rule np)
    apply (rule pr)
    apply (rule mn)
    done
qed

theorem C9_staggered_start_witness:
  "1 \<le> host_count five_hosts
   \<and> template_ParseGlob demo_launch_env ''*.tmpl'' = Inr demo_templates
   \<and> (\<exists>L. main demo_launch_env five_hosts = Blocked L
         \<and> go_div (10 * Second) (host_count five_hosts) = Some 2000000000
         \<and> length (agents L) = 5
         \<and> map fst (started L) = [0, 1, 2, 3, 4]
         \<and> 4 * 2000000000 \<le> snd (started L ! 4)
         \<and> snd (started L ! 4) = 8000006000)"
proof -
  have h: "1 \<le> host_count five_hosts" and n: "host_count five_hosts = 5"
    by (simp_all add: five_hosts_def)
  from C9_staggered_start[OF h, of demo_launch_env demo_templates]
  obtain d L where g: "go_div (10 * Second) (host_count five_hosts) = Some d"
    and d: "d = 10000000000 div host_count five_hosts"
    and l: "launch demo_launch_env five_hosts demo_templates launcher0 = Blocked L"
    and mn: "template_ParseGlob demo_launch_env ''*.tmpl'' = Inr demo_templates
               \<longrightarrow> main demo_launch_env five_hosts = Blocked L"
    and len: "int (length (agents L)) = host_count five_hosts"
    and f: "map fst (started L) = [0..<nat (host_count five_hosts)]"
    and t: "\<forall>k<nat (host_count five_hosts).
            snd (started L ! k) = (\<Sum>r<k. d + int (oversleep demo_launch_env r))
            \<and> int k * d \<le> snd (started L ! k)"
    by (elim exE conjE)
  have d2: "d = 2000000000" using d n by simp
  have u5: "[0..<5] = [0, 1, 2, 3, 4::nat]"
    by code_simp
  have f5: "map fst (started L) = [0, 1, 2, 3, 4]"
    using f n u5 by simp
  have "(4::nat) < nat (host_count five_hosts)" using n by simp
  with t have t4: "snd (started L ! 4) = (\<Sum>r<4. d + int (oversleep demo_launch_env r))"
    and b4: "int 4 * d \<le> snd (started L ! 4)"
    by blast+
  have e4: "snd (started L ! 4) = 8000006000"
    using t4 d2 by (simp add: demo_launch_env_def numeral_eq_Suc)
  have p: "template_ParseGlob demo_launch_env ''*.tmpl'' = Inr demo_templates"
    by (simp add: demo_launch_env_def)
  with mn have m5: "main demo_launch_env five_hosts = Blocked L" by simp
  show ?thesis
    using h p m5 g d2 len n f5 b4 e4 by (intro conjI exI[of _ L]) simp_all
qed

text \<open>
  C10. The delay is computed by a plain division, without a check of the divisor. For a
  host count of 0 the division panics; \<^verbatim>\<open>main\<close>, once the templates have parsed,
  ends in that panic with no agent created and no run loop started. For every host count
  of at least 1 the division returns, and its result is not negative.
\<close>

theorem C10_delay_division:
  "go_div (10 * Second) 0 = None
   \<and> (host_count fl = 0 \<longrightarrow>
        launch le fl tmpl launcher0 = Panicked ''runtime error: integer divide by zero'' launcher0)
   \<and> (host_count fl = 0 \<longrightarrow> template_ParseGlob le ''*.tmpl'' = Inr tmpl \<longrightarrow>
        main le fl = Panicked ''runtime error: integer divide by zero'' launcher0)
   \<and> agents launcher0 = [] \<and> started launcher0 = []
   \<and> (1 \<le> n \<longrightarrow> (\<exists>d. go_div (10 * Second) n = Some d \<and> 0 \<le> d \<and> d = 10000000000 div n))"
proof (intro conjI impI)
  show "go_div (10 * Second) 0 = None" by (simp add: go_div_def)
  show "agents launcher0 = []" and "started launcher0 = []" by (simp_all add: launcher0_def)
next
  assume "host_count fl = 0"
  then show "launch le fl tmpl launcher0 = Panicked ''runtime error: integer divide by zero'' launcher0"
    by (simp add: launch_def go_div_def)
next
  assume "host_count fl = 0" and "template_ParseGlob le ''*.tmpl'' = Inr tmpl"
  then show "main le fl = Panicked ''runtime error: integer divide by zero'' launcher0"
    by (simp add: main_def launch_def go_div_def)
next
  assume "1 \<le> n"
  from go_div_window[OF this]
  show "\<exists>d. go_div (10 * Second) n = Some d \<and> 0 \<le> d \<and> d = 10000000000 div n"
    by simp
qed

theorem C10_delay_division_witness:
  "host_count no_hosts = 0
   \<and> template_ParseGlob demo_launch_env ''*.tmpl'' = Inr demo_templates
   \<and> main demo_launch_env no_hosts = Panicked ''runtime error: integer divide by zero'' launcher0
   \<and> (1::int) \<le> 3
   \<and> go_div (10 * Second) 3 = Some 3333333333"
proof -
  have h: "host_count no_hosts = 0"
    by (simp add: no_hosts_def)
  have p: "template_ParseGlob demo_launch_env ''*.tmpl'' = Inr demo_templates"
    by (simp add: demo_launch_env_def)
  note T = C10_delay_division[of no_hosts demo_launch_env demo_templates 3]
  from T h p have 1: "main demo_launch_env no_hosts
      = Panicked ''runtime error: integer divide by zero'' launcher0"
    by blast
  from T have "\<exists>d. go_div (10 * Second) 3 = Some d \<and> 0 \<le> d \<and> d = 10000000000 div 3"
    by simp
  then have 2: "go_div (10 * Second) 3 = Some 3333333333" by auto
  from h p 1 2 show ?thesis by simp
qed


end
